theory Spec2Isabelle
  imports Main "HOL-Library.Word"
begin

section \<open>JavaScript values of the request and event bodies\<close>

text \<open>
  The handlers of \<^verbatim>\<open>server.js\<close> read properties of parsed JSON bodies. A property is
  absent (\<^verbatim>\<open>undefined\<close>), \<^verbatim>\<open>null\<close>, or carries a value of the JSON type the
  interface gives it (a string, an integer number of cents, a boolean, a nested object).
  A string is well-formed Unicode text (text that UTF-8 can encode), held as its UTF-8
  bytes: that is what \<^verbatim>\<open>Buffer.from\<close> compares and what the database driver sends.
\<close>

datatype 'a field = Undefined | Null | Val 'a

text \<open>JavaScript truthiness, as \<^verbatim>\<open>!x\<close> tests it: the empty string and 0 are falsy.\<close>

fun truthy_str :: "string field \<Rightarrow> bool" where
  "truthy_str (Val s) = (s \<noteq> [])"
| "truthy_str Undefined = False"
| "truthy_str Null = False"

fun truthy_num :: "int field \<Rightarrow> bool" where
  "truthy_num (Val n) = (n \<noteq> 0)"
| "truthy_num Undefined = False"
| "truthy_num Null = False"

text \<open>\<^verbatim>\<open>x > k\<close> on a number: \<^verbatim>\<open>null\<close> converts to 0, \<^verbatim>\<open>undefined\<close> to NaN.\<close>

fun greater_than :: "int field \<Rightarrow> int \<Rightarrow> bool" where
  "greater_than (Val n) k = (k < n)"
| "greater_than Null k = (k < 0)"
| "greater_than Undefined k = False"

text \<open>The errors a handler can catch.\<close>

datatype db_error =
    InvalidByteSequence
  | UnsupportedUnicodeEscape
  | StringTooLong string
  | NumericOutOfRange string
  | NotNullViolation string
  | CheckViolation string
  | UniqueViolation string
  | ForeignKeyViolation string

datatype js_error = TypeError | RangeError | AxiosError | DatabaseError db_error

subsection \<open>Text rendering\<close>

definition digit_char :: "nat \<Rightarrow> char" where
  "digit_char d = ''0123456789abcdef'' ! (d mod 16)"

fun show_nat :: "nat \<Rightarrow> string" where
  "show_nat n = (if n < 10 then [digit_char n] else show_nat (n div 10) @ [digit_char (n mod 10)])"

declare show_nat.simps [simp del]

text \<open>\<^verbatim>\<open>crypto.randomBytes(4).toString('hex')\<close>: eight hex digits, high nibble first.\<close>

definition hex32 :: "32 word \<Rightarrow> string" where
  "hex32 w = map (\<lambda>k. digit_char ((unat w div 16 ^ k) mod 16)) [7, 6, 5, 4, 3, 2, 1, 0]"

text \<open>
  \<^verbatim>\<open>(amountCents / 100).toFixed(2)\<close>. For an integer number of cents the quotient is
  rendered with exactly two decimals; \<^verbatim>\<open>null / 100\<close> is 0 and \<^verbatim>\<open>undefined / 100\<close> is NaN.
\<close>

fun toFixed2 :: "int field \<Rightarrow> string" where
  "toFixed2 (Val n) =
     (if n < 0 then ''-'' else '''') @ show_nat (nat \<bar>n\<bar> div 100) @ ''.'' @
     [digit_char (nat \<bar>n\<bar> mod 100 div 10), digit_char (nat \<bar>n\<bar> mod 10)]"
| "toFixed2 Null = ''0.00''"
| "toFixed2 Undefined = ''NaN''"

text \<open>
  \<^verbatim>\<open>String.prototype.toLowerCase\<close>. The result is only ever compared with the keys of
  the status map, which are ASCII and contain no letter that a character outside ASCII
  lower-cases to, so it is enough to fold the ASCII letters and leave every other byte.
\<close>

definition lower_char :: "char \<Rightarrow> char" where
  "lower_char c =
     (case map_of (zip ''ABCDEFGHIJKLMNOPQRSTUVWXYZ'' ''abcdefghijklmnopqrstuvwxyz'') c of
        Some d \<Rightarrow> d
      | None \<Rightarrow> c)"

definition toLowerCase :: "string \<Rightarrow> string" where
  "toLowerCase s = map lower_char s"

section \<open>The store: \<^verbatim>\<open>schema.sql\<close>\<close>

text \<open>
  One row of \<^verbatim>\<open>transfers\<close>. Columns declared \<^verbatim>\<open>NOT NULL\<close> (and the primary key) hold a
  value; the others are nullable. Timestamps are natural numbers.
\<close>

record transfer =
  id' :: string
  external_txn_id :: "string option"
  idempotency_key :: string
  business_user_id :: string
  recipient_email :: string
  recipient_name :: "string option"
  amount_cents :: int
  currency :: "string option"
  status :: string
  use_auto_deposit :: "bool option"
  security_question :: "string option"
  created_at :: "nat option"
  updated_at :: "nat option"

text \<open>The \<^verbatim>\<open>data\<close> object of a webhook event, which is also what the event log stores.\<close>

record event_metadata =
  md_localTransferId :: "string field"

record event_data =
  data_id :: "string field"
  data_status :: "string field"
  data_metadata :: "event_metadata field"

text \<open>
  One row of \<^verbatim>\<open>transfer_events\<close>. The \<^verbatim>\<open>SERIAL\<close> key is assigned by the database and is
  read by no handler; rows are kept in insertion order.
\<close>

record transfer_event =
  transfer_id :: string
  event_type :: string
  event_payload :: "event_data option"
  received_at :: "nat option"

record store =
  transfers :: "transfer list"
  transfer_events :: "transfer_event list"

subsection \<open>Text as the database sees it\<close>

text \<open>
  The database is taken to use the UTF-8 encoding. It counts characters, not bytes: in
  UTF-8 a character is a byte that is no continuation byte (\<^verbatim>\<open>10xxxxxx\<close>) together with
  the continuation bytes that follow it.
\<close>

definition continuation :: "char \<Rightarrow> bool" where
  "continuation c \<longleftrightarrow> digit7 c \<and> \<not> digit6 c"

definition char_count :: "string \<Rightarrow> nat" where
  "char_count s = length (filter (\<lambda>c. \<not> continuation c) s)"

fun take_chars :: "nat \<Rightarrow> string \<Rightarrow> string" where
  "take_chars 0 s = []"
| "take_chars (Suc n) [] = []"
| "take_chars (Suc n) (c # cs) =
     c # takeWhile continuation cs @ take_chars n (dropWhile continuation cs)"

fun drop_chars :: "nat \<Rightarrow> string \<Rightarrow> string" where
  "drop_chars 0 s = s"
| "drop_chars (Suc n) [] = []"
| "drop_chars (Suc n) (c # cs) = drop_chars n (dropWhile continuation cs)"

text \<open>
  A text parameter is checked when it is bound to the statement, before the statement
  runs: PostgreSQL refuses text that contains the character U+0000.
\<close>

definition nul_free :: "string \<Rightarrow> bool" where
  "nul_free s \<longleftrightarrow> CHR 0x00 \<notin> set s"

definition text_in :: "string option \<Rightarrow> db_error + string option" where
  "text_in v =
     (case v of
        None \<Rightarrow> Inr None
      | Some s \<Rightarrow> if nul_free s then Inr (Some s) else Inl InvalidByteSequence)"

text \<open>
  Assignment to a \<^verbatim>\<open>VARCHAR(n)\<close> column: a value of more than \<open>n\<close> characters is an
  error unless every excess character is a space, in which case it is cut to \<open>n\<close>
  characters.
\<close>

definition varchar :: "nat \<Rightarrow> string \<Rightarrow> string option \<Rightarrow> db_error + string option" where
  "varchar n col v =
     (case v of
        None \<Rightarrow> Inr None
      | Some s \<Rightarrow>
          if char_count s \<le> n then Inr (Some s)
          else if list_all (\<lambda>c. c = CHR '' '') (drop_chars n s) then Inr (Some (take_chars n s))
          else Inl (StringTooLong col))"

text \<open>An \<^verbatim>\<open>INT\<close> parameter is parsed when it is bound, and must be in range.\<close>

definition int4 :: "string \<Rightarrow> int option \<Rightarrow> db_error + int option" where
  "int4 col v =
     (case v of
        None \<Rightarrow> Inr None
      | Some n \<Rightarrow>
          if - 2147483648 \<le> n \<and> n \<le> 2147483647 then Inr (Some n)
          else Inl (NumericOutOfRange col))"

definition not_null :: "string \<Rightarrow> 'a option \<Rightarrow> db_error + 'a" where
  "not_null col v = (case v of None \<Rightarrow> Inl (NotNullViolation col) | Some x \<Rightarrow> Inr x)"

text \<open>Sequencing of fallible steps: the first error ends the statement.\<close>

definition and_then :: "'e + 'a \<Rightarrow> ('a \<Rightarrow> 'e + 'b) \<Rightarrow> 'e + 'b" where
  "and_then r f = (case r of Inl e \<Rightarrow> Inl e | Inr x \<Rightarrow> f x)"

text \<open>
  The payload of an event is sent as the text \<^verbatim>\<open>JSON.stringify(data)\<close> and parsed into
  \<^verbatim>\<open>JSONB\<close> when it is bound. \<^verbatim>\<open>JSON.stringify\<close> writes the character U+0000 as the
  escape \<^verbatim>\<open>\u0000\<close>, which \<^verbatim>\<open>JSONB\<close> refuses.
\<close>

fun field_nul_free :: "string field \<Rightarrow> bool" where
  "field_nul_free (Val s) = nul_free s"
| "field_nul_free Undefined = True"
| "field_nul_free Null = True"

fun metadata_nul_free :: "event_metadata field \<Rightarrow> bool" where
  "metadata_nul_free (Val m) = field_nul_free (md_localTransferId m)"
| "metadata_nul_free Undefined = True"
| "metadata_nul_free Null = True"

definition jsonb_ok :: "event_data \<Rightarrow> bool" where
  "jsonb_ok d \<longleftrightarrow>
     field_nul_free (data_id d) \<and> field_nul_free (data_status d) \<and>
     metadata_nul_free (data_metadata d)"

definition jsonb_in :: "event_data option \<Rightarrow> db_error + event_data option" where
  "jsonb_in v =
     (case v of
        None \<Rightarrow> Inr None
      | Some d \<Rightarrow> if jsonb_ok d then Inr (Some d) else Inl UnsupportedUnicodeEscape)"

text \<open>
  \<^verbatim>\<open>INSERT INTO transfers (id, idempotency_key, business_user_id, recipient_email,
  recipient_name, amount_cents, currency, status, use_auto_deposit, created_at, updated_at)
  VALUES ($1, ..., $9, NOW(), NOW()) RETURNING *\<close>.
  The parameters are bound in their order, which checks the text and parses the integer.
  Then the values are coerced to the column types, the \<^verbatim>\<open>NOT NULL\<close> and \<^verbatim>\<open>CHECK\<close>
  constraints are tested, and last the unique indexes (primary key first). A failed
  statement leaves the table as it was.
\<close>

definition insert_transfer ::
  "store \<Rightarrow> string option \<Rightarrow> string option \<Rightarrow> string option \<Rightarrow> string option \<Rightarrow>
   string option \<Rightarrow> int option \<Rightarrow> string option \<Rightarrow> string option \<Rightarrow> bool option \<Rightarrow> nat \<Rightarrow>
   db_error + (store \<times> transfer)" where
  "insert_transfer s p1 p2 p3 p4 p5 p6 p7 p8 p9 now =
     and_then (text_in p1) (\<lambda>b1.
     and_then (text_in p2) (\<lambda>b2.
     and_then (text_in p3) (\<lambda>b3.
     and_then (text_in p4) (\<lambda>b4.
     and_then (text_in p5) (\<lambda>b5.
     and_then (int4 ''amount_cents'' p6) (\<lambda>c6.
     and_then (text_in p7) (\<lambda>b7.
     and_then (text_in p8) (\<lambda>b8.
     and_then (varchar 64 ''id'' b1) (\<lambda>c1.
     and_then (varchar 128 ''idempotency_key'' b2) (\<lambda>c2.
     and_then (varchar 64 ''business_user_id'' b3) (\<lambda>c3.
     and_then (varchar 255 ''recipient_email'' b4) (\<lambda>c4.
     and_then (varchar 255 ''recipient_name'' b5) (\<lambda>c5.
     and_then (varchar 3 ''currency'' b7) (\<lambda>c7.
     and_then (varchar 32 ''status'' b8) (\<lambda>c8.
     and_then (not_null ''id'' c1) (\<lambda>v1.
     and_then (not_null ''idempotency_key'' c2) (\<lambda>v2.
     and_then (not_null ''business_user_id'' c3) (\<lambda>v3.
     and_then (not_null ''recipient_email'' c4) (\<lambda>v4.
     and_then (not_null ''amount_cents'' c6) (\<lambda>v6.
     and_then (not_null ''status'' c8) (\<lambda>v8.
       if \<not> (0 < v6 \<and> v6 \<le> 2500000) then Inl (CheckViolation ''transfers_amount_cents_check'')
       else if v1 \<in> set (map id' (transfers s)) then Inl (UniqueViolation ''transfers_pkey'')
       else if v2 \<in> set (map idempotency_key (transfers s))
       then Inl (UniqueViolation ''transfers_idempotency_key_key'')
       else
         let row = \<lparr> id' = v1, external_txn_id = None, idempotency_key = v2,
                     business_user_id = v3, recipient_email = v4, recipient_name = c5,
                     amount_cents = v6, currency = c7, status = v8, use_auto_deposit = p9,
                     security_question = None, created_at = Some now, updated_at = Some now \<rparr>
         in Inr (s\<lparr>transfers := transfers s @ [row]\<rparr>, row))))))))))))))))))))))"

text \<open>
  \<^verbatim>\<open>SELECT * FROM transfers WHERE idempotency_key = $1 AND business_user_id = $2\<close>;
  a \<^verbatim>\<open>NULL\<close> parameter equals nothing.
\<close>

definition select_by_key_and_user ::
  "store \<Rightarrow> string option \<Rightarrow> string option \<Rightarrow> db_error + transfer list" where
  "select_by_key_and_user s p1 p2 =
     and_then (text_in p1) (\<lambda>b1.
     and_then (text_in p2) (\<lambda>b2.
       Inr (filter (\<lambda>r. Some (idempotency_key r) = b1 \<and> Some (business_user_id r) = b2)
              (transfers s))))"

text \<open>\<^verbatim>\<open>SELECT * FROM transfers WHERE id = $1\<close>\<close>

definition select_by_id :: "store \<Rightarrow> string option \<Rightarrow> db_error + transfer list" where
  "select_by_id s p1 =
     and_then (text_in p1) (\<lambda>b1. Inr (filter (\<lambda>r. Some (id' r) = b1) (transfers s)))"

text \<open>
  \<^verbatim>\<open>UPDATE transfers SET external_txn_id = $1, status = $2, updated_at = NOW() WHERE id = $3\<close>
\<close>

definition update_submitted ::
  "store \<Rightarrow> string option \<Rightarrow> string option \<Rightarrow> string option \<Rightarrow> nat \<Rightarrow> db_error + store" where
  "update_submitted s p1 p2 p3 now =
     and_then (text_in p1) (\<lambda>b1.
     and_then (text_in p2) (\<lambda>b2.
     and_then (text_in p3) (\<lambda>b3.
     and_then (varchar 128 ''external_txn_id'' b1) (\<lambda>c1.
     and_then (varchar 32 ''status'' b2) (\<lambda>c2.
       if \<not> list_ex (\<lambda>r. Some (id' r) = b3) (transfers s) then Inr s
       else and_then (not_null ''status'' c2) (\<lambda>v2.
         Inr (s\<lparr>transfers :=
                map (\<lambda>r. if Some (id' r) = b3
                         then r\<lparr>external_txn_id := c1, status := v2, updated_at := Some now\<rparr>
                         else r) (transfers s)\<rparr>)))))))"

text \<open>\<^verbatim>\<open>UPDATE transfers SET status = $1, updated_at = NOW() WHERE id = $2\<close>\<close>

definition update_status ::
  "store \<Rightarrow> string option \<Rightarrow> string option \<Rightarrow> nat \<Rightarrow> db_error + store" where
  "update_status s p1 p2 now =
     and_then (text_in p1) (\<lambda>b1.
     and_then (text_in p2) (\<lambda>b2.
     and_then (varchar 32 ''status'' b1) (\<lambda>c1.
       if \<not> list_ex (\<lambda>r. Some (id' r) = b2) (transfers s) then Inr s
       else and_then (not_null ''status'' c1) (\<lambda>v1.
         Inr (s\<lparr>transfers :=
                map (\<lambda>r. if Some (id' r) = b2 then r\<lparr>status := v1, updated_at := Some now\<rparr> else r)
                  (transfers s)\<rparr>)))))"

text \<open>
  \<^verbatim>\<open>INSERT INTO transfer_events (transfer_id, event_type, event_payload, received_at)
  VALUES ($1, $2, $3, NOW())\<close>; \<^verbatim>\<open>transfer_id\<close> references \<^verbatim>\<open>transfers(id)\<close>.
\<close>

definition insert_event ::
  "store \<Rightarrow> string option \<Rightarrow> string option \<Rightarrow> event_data option \<Rightarrow> nat \<Rightarrow> db_error + store" where
  "insert_event s p1 p2 p3 now =
     and_then (text_in p1) (\<lambda>b1.
     and_then (text_in p2) (\<lambda>b2.
     and_then (jsonb_in p3) (\<lambda>b3.
     and_then (varchar 64 ''transfer_id'' b1) (\<lambda>c1.
     and_then (varchar 64 ''event_type'' b2) (\<lambda>c2.
     and_then (not_null ''transfer_id'' c1) (\<lambda>v1.
     and_then (not_null ''event_type'' c2) (\<lambda>v2.
       if v1 \<notin> set (map id' (transfers s))
       then Inl (ForeignKeyViolation ''transfer_events_transfer_id_fkey'')
       else Inr (s\<lparr>transfer_events := transfer_events s @
                   [\<lparr> transfer_id = v1, event_type = v2, event_payload = b3,
                      received_at = Some now \<rparr>]\<rparr>))))))))"

text \<open>What the database driver sends for a JavaScript value: \<^verbatim>\<open>null\<close> and \<^verbatim>\<open>undefined\<close> are \<^verbatim>\<open>NULL\<close>.\<close>

fun param :: "'a field \<Rightarrow> 'a option" where
  "param (Val x) = Some x"
| "param Undefined = None"
| "param Null = None"

section \<open>Creating a transfer: \<^verbatim>\<open>POST /api/payouts/interac\<close>\<close>

record payout_request =
  businessUserId :: "string field"
  amountCents :: "int field"
  recipientEmail :: "string field"
  recipientName :: "string field"
  useAutoDeposit :: "bool field"
  idempotencyKey :: "string field"

text \<open>The body and the \<^verbatim>\<open>Idempotency-Key\<close> header of the call to the provider.\<close>

record provider_request =
  amount :: string
  payload_currency :: string
  recipient_email' :: "string field"
  recipient_name' :: "string field"
  autoDeposit :: "bool field"
  reference :: string
  metadata_localTransferId :: string
  metadata_businessUserId :: "string field"
  header_Idempotency_Key :: "string field"

text \<open>
  \<^verbatim>\<open>axios.post\<close> either throws (network error, non-2xx status, timeout) or returns a
  response whose \<^verbatim>\<open>data\<close> the handler destructures into \<^verbatim>\<open>id\<close> and \<^verbatim>\<open>status\<close>.
\<close>

record provider_data =
  provider_id :: "string field"
  provider_status :: "string field"

datatype provider_outcome = Rejected | Replied "provider_data field"

record created_transfer =
  created_id :: string
  externalTxnId :: "string field"
  created_status :: "string field"
  created_amount :: string
  created_currency :: string

datatype body =
    ErrorJson string
  | FailedJson js_error
  | TransferJson transfer
  | CreatedJson created_transfer
  | Text string

datatype response = Response (statusCode: nat) (content: body)

text \<open>
  What the handler reads from its surroundings: the clock, the random bytes, the
  database's \<^verbatim>\<open>NOW()\<close> at the insert and at the update, and the provider.
\<close>

record payout_env =
  Date_now :: nat
  randomBytes :: "32 word"
  NOW_insert :: nat
  NOW_update :: nat
  axios_post :: "provider_request \<Rightarrow> provider_outcome"

text \<open>\<^verbatim>\<open>useAutoDeposit = true\<close> in the destructuring: the default replaces \<^verbatim>\<open>undefined\<close> only.\<close>

fun default_true :: "bool field \<Rightarrow> bool field" where
  "default_true Undefined = Val True"
| "default_true v = v"

text \<open>\<^verbatim>\<open>providerStatus || 'submitted'\<close>\<close>

definition or_submitted :: "string field \<Rightarrow> string field" where
  "or_submitted v = (if truthy_str v then v else Val ''submitted'')"

text \<open>
  The handler is run as one step on the store. It yields the HTTP response, the store it
  leaves behind and the calls made to the provider. The \<^verbatim>\<open>catch\<close> block turns every
  exception into a 500 response; writes made before the exception stay.
\<close>

text \<open>The request sent to the provider (lines 140 to 159).\<close>

definition interac_payload :: "payout_request \<Rightarrow> string \<Rightarrow> provider_request" where
  "interac_payload req localTransferId =
     \<lparr> amount = toFixed2 (amountCents req),
       payload_currency = ''CAD'',
       recipient_email' = recipientEmail req,
       recipient_name' = recipientName req,
       autoDeposit = default_true (useAutoDeposit req),
       reference = localTransferId,
       metadata_localTransferId = localTransferId,
       metadata_businessUserId = businessUserId req,
       header_Idempotency_Key = idempotencyKey req \<rparr>"

text \<open>The provider call and the update that records its answer (lines 149 to 180).\<close>

definition submit ::
  "payout_env \<Rightarrow> payout_request \<Rightarrow> store \<Rightarrow> transfer \<Rightarrow> string \<Rightarrow>
   response \<times> store \<times> provider_request list" where
  "submit env req s1 transfer localTransferId =
     (case axios_post env (interac_payload req localTransferId) of
        Rejected \<Rightarrow>
          (Response 500 (FailedJson AxiosError), s1, [interac_payload req localTransferId])
      | Replied Undefined \<Rightarrow>
          (Response 500 (FailedJson TypeError), s1, [interac_payload req localTransferId])
      | Replied Null \<Rightarrow>
          (Response 500 (FailedJson TypeError), s1, [interac_payload req localTransferId])
      | Replied (Val d) \<Rightarrow>
          (case update_submitted s1 (param (provider_id d))
                  (param (or_submitted (provider_status d))) (Some localTransferId)
                  (NOW_update env) of
             Inl e \<Rightarrow>
               (Response 500 (FailedJson (DatabaseError e)), s1, [interac_payload req localTransferId])
           | Inr s2 \<Rightarrow>
               (Response 201 (CreatedJson
                  \<lparr> created_id = id' transfer,
                    externalTxnId = provider_id d,
                    created_status = or_submitted (provider_status d),
                    created_amount = toFixed2 (amountCents req),
                    created_currency = ''CAD'' \<rparr>), s2, [interac_payload req localTransferId])))"

text \<open>Line 126: \<^verbatim>\<open>'TRF_' + Date.now() + '_' + crypto.randomBytes(4).toString('hex')\<close>\<close>

definition new_localTransferId :: "payout_env \<Rightarrow> string" where
  "new_localTransferId env = ''TRF_'' @ show_nat (Date_now env) @ ''_'' @ hex32 (randomBytes env)"

text \<open>The insert (lines 128 to 138), then the submission.\<close>

definition insert_and_submit ::
  "payout_env \<Rightarrow> payout_request \<Rightarrow> store \<Rightarrow> response \<times> store \<times> provider_request list" where
  "insert_and_submit env req s =
     (let localTransferId = new_localTransferId env
      in
      case insert_transfer s (Some localTransferId) (param (idempotencyKey req))
             (param (businessUserId req)) (param (recipientEmail req))
             (param (recipientName req)) (param (amountCents req)) (Some ''CAD'')
             (Some ''created'') (param (default_true (useAutoDeposit req)))
             (NOW_insert env) of
        Inl e \<Rightarrow> (Response 500 (FailedJson (DatabaseError e)), s, [])
      | Inr (s1, transfer) \<Rightarrow> submit env req s1 transfer localTransferId)"

text \<open>Validation and the idempotency lookup (lines 105 to 124), then the rest.\<close>

definition createTransfer ::
  "payout_env \<Rightarrow> payout_request \<Rightarrow> store \<Rightarrow> response \<times> store \<times> provider_request list" where
  "createTransfer env req s =
     (if \<not> truthy_str (businessUserId req) \<or> \<not> truthy_num (amountCents req)
         \<or> \<not> truthy_str (recipientEmail req)
      then (Response 400 (ErrorJson ''Missing required fields''), s, [])
      else if greater_than (amountCents req) 2500000
      then (Response 400 (ErrorJson ''Exceeds $25K limit''), s, [])
      else if \<not> truthy_str (idempotencyKey req)
      then (Response 400 (ErrorJson ''Idempotency key required''), s, [])
      else
        (case select_by_key_and_user s (param (idempotencyKey req))
                (param (businessUserId req)) of
           Inl e \<Rightarrow> (Response 500 (FailedJson (DatabaseError e)), s, [])
         | Inr (existing # rest) \<Rightarrow> (Response 200 (TransferJson existing), s, [])
         | Inr [] \<Rightarrow> insert_and_submit env req s))"

section \<open>Webhooks: \<^verbatim>\<open>POST /webhooks/interac\<close>\<close>

subsection \<open>\<^verbatim>\<open>verifyWebhookSignature\<close>\<close>

text \<open>
  The hex HMAC-SHA256 digest is computed by Node's \<^verbatim>\<open>crypto\<close>; here it is a function
  \<open>sha256\<close> from the secret and the payload to the digest text. \<^verbatim>\<open>createHmac\<close> and
  \<^verbatim>\<open>update\<close> throw on a secret or payload that is not a string, \<^verbatim>\<open>Buffer.from\<close> throws
  on \<^verbatim>\<open>undefined\<close> and \<^verbatim>\<open>null\<close>, and \<^verbatim>\<open>timingSafeEqual\<close> throws on buffers of
  different lengths.
\<close>

definition createHmac_digest ::
  "(string \<Rightarrow> string \<Rightarrow> string) \<Rightarrow> string field \<Rightarrow> string field \<Rightarrow> js_error + string" where
  "createHmac_digest sha256 secret payload =
     (case secret of
        Val k \<Rightarrow> (case payload of Val p \<Rightarrow> Inr (sha256 k p) | _ \<Rightarrow> Inl TypeError)
      | _ \<Rightarrow> Inl TypeError)"

definition Buffer_from :: "string field \<Rightarrow> js_error + string" where
  "Buffer_from v = (case v of Val s \<Rightarrow> Inr s | _ \<Rightarrow> Inl TypeError)"

definition timingSafeEqual :: "string \<Rightarrow> string \<Rightarrow> js_error + bool" where
  "timingSafeEqual a b = (if length a \<noteq> length b then Inl RangeError else Inr (a = b))"

text \<open>The body of the \<^verbatim>\<open>try\<close> block.\<close>

definition verify_try ::
  "(string \<Rightarrow> string \<Rightarrow> string) \<Rightarrow> string field \<Rightarrow> string field \<Rightarrow> string field \<Rightarrow>
   js_error + bool" where
  "verify_try sha256 payload signature secret =
     and_then (createHmac_digest sha256 secret payload) (\<lambda>hmac.
     and_then (Buffer_from (Val hmac)) (\<lambda>a.
     and_then (Buffer_from signature) (\<lambda>b.
       timingSafeEqual a b)))"

definition verifyWebhookSignature ::
  "(string \<Rightarrow> string \<Rightarrow> string) \<Rightarrow> string field \<Rightarrow> string field \<Rightarrow> string field \<Rightarrow> bool" where
  "verifyWebhookSignature sha256 payload signature secret =
     (case verify_try sha256 payload signature secret of Inl e \<Rightarrow> False | Inr b \<Rightarrow> b)"

subsection \<open>The status map\<close>

text \<open>
  \<^verbatim>\<open>statusMap\<close> is an object literal, so reading \<^verbatim>\<open>statusMap[k]\<close> finds its four own
  properties and, for any other key, the properties it inherits from
  \<^verbatim>\<open>Object.prototype\<close>. A lower-cased key can only name two of those:
  \<^verbatim>\<open>constructor\<close> (the function \<^verbatim>\<open>Object\<close>) and \<^verbatim>\<open>__proto__\<close> (the prototype
  object itself); the names of all others contain a capital letter.
\<close>

datatype js_value = JsString string | Object_constructor | Object_prototype

definition statusMap :: "string \<Rightarrow> js_value field" where
  "statusMap k =
     (if k = ''pending'' then Val (JsString ''pending'')
      else if k = ''sent'' then Val (JsString ''sent'')
      else if k = ''deposited'' then Val (JsString ''deposited'')
      else if k = ''failed'' then Val (JsString ''failed'')
      else if k = ''constructor'' then Val Object_constructor
      else if k = ''__proto__'' then Val Object_prototype
      else Undefined)"

text \<open>
  The transition function of the state machine,
  \<^verbatim>\<open>statusMap[newStatus.toLowerCase()] || newStatus\<close> for a string \<^verbatim>\<open>newStatus\<close>. Every
  value the map can yield is truthy. The handler never reads the transfer's current
  status, so the first argument is not used.
\<close>

definition applyProviderStatus :: "string \<Rightarrow> string \<Rightarrow> js_value" where
  "applyProviderStatus currentStatus rawProviderStatus =
     (case statusMap (toLowerCase rawProviderStatus) of
        Val v \<Rightarrow> v
      | _ \<Rightarrow> JsString rawProviderStatus)"

text \<open>
  Line 218 for the \<^verbatim>\<open>data.status\<close> the event carries: \<^verbatim>\<open>newStatus.toLowerCase()\<close>
  throws a TypeError when \<^verbatim>\<open>newStatus\<close> is \<^verbatim>\<open>undefined\<close> or \<^verbatim>\<open>null\<close>.
\<close>

definition mappedStatus :: "string \<Rightarrow> string field \<Rightarrow> js_error + js_value" where
  "mappedStatus currentStatus newStatus =
     (case newStatus of
        Val raw \<Rightarrow> Inr (applyProviderStatus currentStatus raw)
      | Undefined \<Rightarrow> Inl TypeError
      | Null \<Rightarrow> Inl TypeError)"

text \<open>
  The text the database driver sends for a query parameter that is not a string: a
  function is sent as its source text, an object as its JSON text.
\<close>

fun param_text :: "js_value \<Rightarrow> string option" where
  "param_text (JsString s) = Some s"
| "param_text Object_constructor = Some ''function Object() { [native code] }''"
| "param_text Object_prototype = Some ''{}''"

subsection \<open>The handler\<close>

record webhook_event =
  type :: "string field"
  data :: "event_data field"

text \<open>
  What the handler reads from the request: the \<^verbatim>\<open>x-webhook-signature\<close> header,
  \<^verbatim>\<open>req.rawBody\<close> and the parsed body. Both bodies are taken as the handler finds
  them; the middleware that fills them in is not part of the handler.
\<close>

record webhook_request =
  x_webhook_signature :: "string field"
  rawBody :: "string field"
  event :: webhook_event

record webhook_env =
  WEBHOOK_SECRET :: "string field"
  hmac_sha256 :: "string \<Rightarrow> string \<Rightarrow> string"
  NOW_status :: nat
  NOW_event :: nat

text \<open>\<^verbatim>\<open>metadata?.localTransferId\<close>\<close>

fun optional_localTransferId :: "event_metadata field \<Rightarrow> string field" where
  "optional_localTransferId (Val m) = md_localTransferId m"
| "optional_localTransferId Undefined = Undefined"
| "optional_localTransferId Null = Undefined"

text \<open>
  The handler is run as one step on the store. Destructuring an absent \<^verbatim>\<open>data\<close> and
  calling \<^verbatim>\<open>toLowerCase\<close> on an absent status throw a TypeError; the \<^verbatim>\<open>catch\<close> block
  answers 500. The two writes are separate statements, so a failing event insert leaves
  the status update in place.
\<close>

text \<open>
  Line 199, \<^verbatim>\<open>const { id, status, metadata } = data\<close>: destructuring \<^verbatim>\<open>undefined\<close> or
  \<^verbatim>\<open>null\<close> throws a TypeError.
\<close>

definition destructure :: "event_data field \<Rightarrow> js_error + event_data" where
  "destructure v = (case v of Val d \<Rightarrow> Inr d | Undefined \<Rightarrow> Inl TypeError | Null \<Rightarrow> Inl TypeError)"

text \<open>The transition and the two writes for a transfer that was found (lines 211 to 231).\<close>

definition record_event ::
  "webhook_env \<Rightarrow> webhook_request \<Rightarrow> store \<Rightarrow> event_data \<Rightarrow> transfer \<Rightarrow> response \<times> store" where
  "record_event env req s d transfer =
     (case mappedStatus (status transfer) (data_status d) of
        Inl e \<Rightarrow> (Response 500 (Text ''Error''), s)
      | Inr v \<Rightarrow>
          (case update_status s (param_text v) (Some (id' transfer)) (NOW_status env) of
             Inl e \<Rightarrow> (Response 500 (Text ''Error''), s)
           | Inr s1 \<Rightarrow>
               (case insert_event s1 (Some (id' transfer)) (param (type (event req))) (Some d)
                       (NOW_event env) of
                  Inl e \<Rightarrow> (Response 500 (Text ''Error''), s1)
                | Inr s2 \<Rightarrow> (Response 200 (Text ''OK''), s2))))"

text \<open>The lookup of lines 201 to 205: no query is made without a truthy identifier.\<close>

definition find_transfer :: "store \<Rightarrow> event_data \<Rightarrow> db_error + transfer list" where
  "find_transfer s d =
     (if truthy_str (optional_localTransferId (data_metadata d))
      then select_by_id s (param (optional_localTransferId (data_metadata d)))
      else Inr [])"

definition ingestWebhook :: "webhook_env \<Rightarrow> webhook_request \<Rightarrow> store \<Rightarrow> response \<times> store" where
  "ingestWebhook env req s =
     (if \<not> truthy_str (x_webhook_signature req)
         \<or> \<not> verifyWebhookSignature (hmac_sha256 env) (rawBody req) (x_webhook_signature req)
               (WEBHOOK_SECRET env)
      then (Response 400 (Text ''Invalid signature''), s)
      else
        (case destructure (data (event req)) of
           Inl e \<Rightarrow> (Response 500 (Text ''Error''), s)
         | Inr d \<Rightarrow>
             (case find_transfer s d of
                Inl e \<Rightarrow> (Response 500 (Text ''Error''), s)
              | Inr [] \<Rightarrow> (Response 200 (Text ''OK''), s)
              | Inr (transfer # rest) \<Rightarrow> record_event env req s d transfer)))"

section \<open>Predicates and concrete inputs of the statements\<close>

text \<open>The request passes every guard of lines 105 to 115.\<close>

definition passes_validation :: "payout_request \<Rightarrow> bool" where
  "passes_validation req \<longleftrightarrow>
     truthy_str (businessUserId req) \<and> truthy_num (amountCents req) \<and>
     truthy_str (recipientEmail req) \<and> \<not> greater_than (amountCents req) 2500000 \<and>
     truthy_str (idempotencyKey req)"

text \<open>The stored row carries the idempotency key and the business user of the request.\<close>

definition matches_request :: "payout_request \<Rightarrow> transfer \<Rightarrow> bool" where
  "matches_request req r \<longleftrightarrow>
     Some (idempotency_key r) = param (idempotencyKey req) \<and>
     Some (business_user_id r) = param (businessUserId req)"

definition key_pair :: "transfer \<Rightarrow> string \<times> string" where
  "key_pair r = (idempotency_key r, business_user_id r)"

text \<open>
  The event names a stored transfer: its metadata carries a truthy \<^verbatim>\<open>localTransferId\<close>
  and \<open>t\<close> is the first stored row with that identifier.
\<close>

definition matches_transfer :: "store \<Rightarrow> event_data \<Rightarrow> transfer \<Rightarrow> bool" where
  "matches_transfer s d t \<longleftrightarrow>
     (case optional_localTransferId (data_metadata d) of
        Val x \<Rightarrow> x \<noteq> [] \<and> find (\<lambda>r. id' r = x) (transfers s) = Some t
      | Undefined \<Rightarrow> False
      | Null \<Rightarrow> False)"

text \<open>Text of at most \<open>n\<close> characters that the database accepts.\<close>

definition acceptable :: "nat \<Rightarrow> string \<Rightarrow> bool" where
  "acceptable n s \<longleftrightarrow> nul_free s \<and> char_count s \<le> n"

text \<open>
  The keys the store holds are text as PostgreSQL can hold it: none contains the
  character U+0000.
\<close>

definition holds_text :: "store \<Rightarrow> bool" where
  "holds_text s \<longleftrightarrow>
     list_all (\<lambda>r. nul_free (idempotency_key r) \<and> nul_free (business_user_id r)) (transfers s)"

text \<open>The request carries a truthy signature that \<^verbatim>\<open>verifyWebhookSignature\<close> accepts.\<close>

definition signature_verified :: "webhook_env \<Rightarrow> webhook_request \<Rightarrow> bool" where
  "signature_verified env req \<longleftrightarrow>
     truthy_str (x_webhook_signature req) \<and>
     verifyWebhookSignature (hmac_sha256 env) (rawBody req) (x_webhook_signature req)
       (WEBHOOK_SECRET env)"

text \<open>
  The row built from the request satisfies every column constraint of \<^verbatim>\<open>transfers\<close>
  and its fresh identifier is not in use, so that only the unique index on
  \<^verbatim>\<open>idempotency_key\<close> can refuse it.
\<close>

definition fits :: "nat \<Rightarrow> string option \<Rightarrow> bool" where
  "fits n v = (case v of None \<Rightarrow> True | Some x \<Rightarrow> acceptable n x)"

definition fits_columns :: "payout_env \<Rightarrow> payout_request \<Rightarrow> store \<Rightarrow> bool" where
  "fits_columns env req s \<longleftrightarrow>
     acceptable 64 (new_localTransferId env) \<and>
     new_localTransferId env \<notin> set (map id' (transfers s)) \<and>
     fits 128 (param (idempotencyKey req)) \<and>
     fits 64 (param (businessUserId req)) \<and>
     fits 255 (param (recipientEmail req)) \<and>
     fits 255 (param (recipientName req)) \<and>
     (case amountCents req of Val n \<Rightarrow> 0 < n | Undefined \<Rightarrow> True | Null \<Rightarrow> True)"

subsection \<open>A creation request and its surroundings\<close>

definition example_request :: payout_request where
  "example_request =
     \<lparr> businessUserId = Val ''u1'', amountCents = Val 5000, recipientEmail = Val ''a@b.c'',
       recipientName = Val ''Ann'', useAutoDeposit = Undefined, idempotencyKey = Val ''k1'' \<rparr>"

definition provider_accepts :: "provider_request \<Rightarrow> provider_outcome" where
  "provider_accepts p =
     Replied (Val \<lparr> provider_id = Val ''ext_1'', provider_status = Val ''pending'' \<rparr>)"

definition provider_down :: "provider_request \<Rightarrow> provider_outcome" where
  "provider_down p = Rejected"

definition replying_env :: payout_env where
  "replying_env =
     \<lparr> Date_now = 1730000000000, randomBytes = 0xA1B2C3D4, NOW_insert = 10, NOW_update = 11,
       axios_post = provider_accepts \<rparr>"

definition failing_env :: payout_env where
  "failing_env = replying_env\<lparr>axios_post := provider_down\<rparr>"

definition later_env :: payout_env where
  "later_env = replying_env\<lparr>Date_now := 1730000000500, randomBytes := 0x0000BEEF,
     NOW_insert := 20, NOW_update := 21\<rparr>"

definition empty_store :: store where
  "empty_store = \<lparr> transfers = [], transfer_events = [] \<rparr>"

text \<open>The row that \<open>example_request\<close> leaves behind when the provider accepts it.\<close>

definition stored_transfer :: transfer where
  "stored_transfer =
     \<lparr> id' = ''TRF_1730000000000_a1b2c3d4'', external_txn_id = Some ''ext_1'',
       idempotency_key = ''k1'', business_user_id = ''u1'', recipient_email = ''a@b.c'',
       recipient_name = Some ''Ann'', amount_cents = 5000, currency = Some ''CAD'',
       status = ''pending'', use_auto_deposit = Some True, security_question = None,
       created_at = Some 10, updated_at = Some 11 \<rparr>"

definition one_transfer_store :: store where
  "one_transfer_store = \<lparr> transfers = [stored_transfer], transfer_events = [] \<rparr>"

definition over_limit_replay :: payout_request where
  "over_limit_replay = example_request\<lparr>amountCents := Val 3000000\<rparr>"

definition negative_request :: payout_request where
  "negative_request = example_request\<lparr>amountCents := Val (- 5)\<rparr>"

definition nameless_request :: payout_request where
  "nameless_request = example_request\<lparr>recipientName := Undefined\<rparr>"

definition keyless_request :: payout_request where
  "keyless_request = example_request\<lparr>idempotencyKey := Undefined\<rparr>"

definition zero_amount_request :: payout_request where
  "zero_amount_request = example_request\<lparr>amountCents := Val 0\<rparr>"

definition other_user_request :: payout_request where
  "other_user_request = example_request\<lparr>businessUserId := Val ''u2''\<rparr>"

subsection \<open>Webhook requests and their surroundings\<close>

text \<open>
  A stand-in for the digest in concrete inputs. It is no cryptographic function; the
  statements below hold for every digest function.
\<close>

definition example_digest :: "string \<Rightarrow> string \<Rightarrow> string" where
  "example_digest k p = map (\<lambda>c. digit_char (of_char c)) (k @ p)"

definition example_webhook_env :: webhook_env where
  "example_webhook_env =
     \<lparr> WEBHOOK_SECRET = Val ''s3cret'', hmac_sha256 = example_digest,
       NOW_status = 30, NOW_event = 31 \<rparr>"

definition event_data_with :: "string field \<Rightarrow> event_metadata field \<Rightarrow> event_data" where
  "event_data_with st md = \<lparr> data_id = Val ''ext_1'', data_status = st, data_metadata = md \<rparr>"

definition names_stored_transfer :: "event_metadata field" where
  "names_stored_transfer = Val \<lparr> md_localTransferId = Val ''TRF_1730000000000_a1b2c3d4'' \<rparr>"

definition signed_request :: "event_data field \<Rightarrow> webhook_request" where
  "signed_request d =
     \<lparr> x_webhook_signature = Val (example_digest ''s3cret'' ''raw body''),
       rawBody = Val ''raw body'',
       event = \<lparr> type = Val ''payout.updated'', data = d \<rparr> \<rparr>"

definition tampered_request :: webhook_request where
  "tampered_request =
     (signed_request (Val (event_data_with (Val ''deposited'') names_stored_transfer)))
       \<lparr>rawBody := Val ''raw body!''\<rparr>"

definition submitted_transfer :: transfer where
  "submitted_transfer = stored_transfer\<lparr>status := ''submitted''\<rparr>"

definition submitted_store :: store where
  "submitted_store = \<lparr> transfers = [submitted_transfer], transfer_events = [] \<rparr>"



definition statusless_data :: event_data where
  "statusless_data = event_data_with Undefined names_stored_transfer"

definition unmatched_data :: event_data where
  "unmatched_data = event_data_with (Val ''sent'') Undefined"

text \<open>An identifier with the character U+0000 in it.\<close>

definition nul_id_data :: event_data where
  "nul_id_data =
     event_data_with (Val ''sent'')
       (Val \<lparr> md_localTransferId = Val [CHR ''a'', CHR 0x00, CHR ''b''] \<rparr>)"

text \<open>Twenty times the character U+4E2D, which takes three bytes.\<close>

definition wide_status :: string where
  "wide_status = concat (replicate 20 [CHR 0xE4, CHR 0xB8, CHR 0xAD])"

definition unknown_id_data :: event_data where
  "unknown_id_data =
     event_data_with (Val ''sent'') (Val \<lparr> md_localTransferId = Val ''TRF_0_00000000'' \<rparr>)"

section \<open>Facts about the store operations\<close>

lemma and_then_Inr_iff: "and_then r f = Inr y \<longleftrightarrow> (\<exists>x. r = Inr x \<and> f x = Inr y)"
  by (cases r) (simp_all add: and_then_def)

lemma not_null_Inr_iff: "not_null col v = Inr x \<longleftrightarrow> v = Some x"
  by (cases v) (simp_all add: not_null_def)

lemma text_in_Inr_iff:
  "text_in v = Inr b \<longleftrightarrow> b = v \<and> (case v of None \<Rightarrow> True | Some x \<Rightarrow> nul_free x)"
  by (cases v) (auto simp: text_in_def)

lemma text_in_None: "text_in None = Inr None"
  by (simp add: text_in_def)

lemma text_in_Some: "nul_free x \<Longrightarrow> text_in (Some x) = Inr (Some x)"
  by (simp add: text_in_def)

lemma varchar_fits: "char_count x \<le> n \<Longrightarrow> varchar n col (Some x) = Inr (Some x)"
  by (simp add: varchar_def)

lemma varchar_None: "varchar n col None = Inr None"
  by (simp add: varchar_def)

lemma acceptable_D:
  assumes "acceptable n x"
  shows "text_in (Some x) = Inr (Some x)" and "varchar n col (Some x) = Inr (Some x)"
  using assms by (simp_all add: acceptable_def text_in_def varchar_def)

lemma fits_D:
  assumes "fits n v"
  shows "text_in v = Inr v" and "varchar n col v = Inr v"
  using assms by (cases v; simp add: fits_def text_in_None varchar_None acceptable_D)+

lemma created_is_stored: "varchar 32 col (Some ''created'') = Inr (Some ''created'')"
  by (simp add: varchar_def char_count_def continuation_def)

lemma constants_are_stored:
  "text_in (Some ''CAD'') = Inr (Some ''CAD'')"
  "text_in (Some ''created'') = Inr (Some ''created'')"
  "varchar 3 col (Some ''CAD'') = Inr (Some ''CAD'')"
  "varchar 32 col (Some ''created'') = Inr (Some ''created'')"
  by (simp_all add: text_in_def nul_free_def varchar_def char_count_def continuation_def)

lemma take_chars_subset: "set (take_chars n x) \<subseteq> set x"
proof (induction n x rule: take_chars.induct)
  case (3 n c cs)
  have "set (takeWhile continuation cs) \<subseteq> set cs" by (auto dest: set_takeWhileD)
  moreover have "set (dropWhile continuation cs) \<subseteq> set cs" by (auto dest: set_dropWhileD)
  ultimately show ?case using 3 by auto
qed simp_all

lemma varchar_nul_free:
  assumes "varchar n col v = Inr (Some y)"
    and "case v of None \<Rightarrow> True | Some x \<Rightarrow> nul_free x"
  shows "nul_free y"
proof (cases v)
  case None
  with assms show ?thesis by (simp add: varchar_def)
next
  case (Some x)
  with assms take_chars_subset [of n x] show ?thesis
    by (auto simp: varchar_def nul_free_def split: if_splits)
qed

lemma int4_Inr_Some: "int4 col v = Inr (Some n) \<Longrightarrow> v = Some n"
  by (auto simp: int4_def split: option.splits if_splits)

lemma select_by_key_and_user_Cons:
  assumes "select_by_key_and_user s (param (idempotencyKey req)) (param (businessUserId req))
             = Inr (x # rest)"
  shows "x \<in> set (transfers s)" and "matches_request req x"
proof -
  from assms have "x \<in> set (filter (\<lambda>r. matches_request req r) (transfers s))"
    by (auto simp: select_by_key_and_user_def and_then_Inr_iff text_in_Inr_iff
        matches_request_def)
  then show "x \<in> set (transfers s)" and "matches_request req x" by simp_all
qed

lemma select_by_key_and_user_Nil:
  assumes "select_by_key_and_user s (param (idempotencyKey req)) (param (businessUserId req))
             = Inr []"
  shows "\<forall>r \<in> set (transfers s). \<not> matches_request req r"
  using assms
  by (auto simp: select_by_key_and_user_def and_then_Inr_iff text_in_Inr_iff
      matches_request_def filter_empty_conv)

lemma select_by_key_and_user_ok:
  assumes "text_in (param (idempotencyKey req)) = Inr (param (idempotencyKey req))"
    and "text_in (param (businessUserId req)) = Inr (param (businessUserId req))"
  shows "select_by_key_and_user s (param (idempotencyKey req)) (param (businessUserId req))
           = Inr (filter (matches_request req) (transfers s))"
proof -
  have "(\<lambda>r. Some (idempotency_key r) = param (idempotencyKey req)
            \<and> Some (business_user_id r) = param (businessUserId req)) = matches_request req"
    by (auto simp: matches_request_def)
  with assms show ?thesis
    by (simp add: select_by_key_and_user_def and_then_def)
qed

lemma insert_transfer_Inr:
  assumes "insert_transfer s p1 p2 p3 p4 p5 p6 p7 p8 p9 now = Inr (s1, row)"
  shows "s1 = s\<lparr>transfers := transfers s @ [row]\<rparr>"
    and "id' row \<notin> set (map id' (transfers s))"
    and "idempotency_key row \<notin> set (map idempotency_key (transfers s))"
    and "external_txn_id row = None"
    and "p8 = Some ''created'' \<longrightarrow> status row = ''created''"
    and "p6 = Some (amount_cents row)"
    and "0 < amount_cents row"
    and "amount_cents row \<le> 2500000"
  using assms
  by (auto simp: insert_transfer_def and_then_Inr_iff not_null_Inr_iff text_in_Inr_iff
      created_is_stored Let_def dest: int4_Inr_Some split: if_splits)

lemma insert_transfer_keys:
  assumes "insert_transfer s p1 p2 p3 p4 p5 p6 p7 p8 p9 now = Inr (s1, row)"
  shows "nul_free (idempotency_key row)" and "nul_free (business_user_id row)"
proof -
  from assms obtain
    "varchar 128 ''idempotency_key'' p2 = Inr (Some (idempotency_key row))"
    "case p2 of None \<Rightarrow> True | Some x \<Rightarrow> nul_free x"
    "varchar 64 ''business_user_id'' p3 = Inr (Some (business_user_id row))"
    "case p3 of None \<Rightarrow> True | Some x \<Rightarrow> nul_free x"
    by (auto simp: insert_transfer_def and_then_Inr_iff not_null_Inr_iff text_in_Inr_iff
        Let_def split: if_splits)
  then show "nul_free (idempotency_key row)" and "nul_free (business_user_id row)"
    by (auto intro: varchar_nul_free)
qed

lemma update_submitted_Inr:
  assumes "update_submitted s p1 p2 p3 now = Inr s2"
  shows "map key_pair (transfers s2) = map key_pair (transfers s)"
    and "transfer_events s2 = transfer_events s"
  using assms
  by (auto simp: update_submitted_def and_then_Inr_iff not_null_Inr_iff key_pair_def
      split: if_splits)

lemma submit_cases:
  assumes "submit env req s1 t lid = (resp, s', calls)"
  shows "calls = [interac_payload req lid]"
    and "map key_pair (transfers s') = map key_pair (transfers s1)"
    and "transfer_events s' = transfer_events s1"
  using assms
  by (auto simp: submit_def split: provider_outcome.splits field.splits sum.splits
      dest: update_submitted_Inr)

lemma submit_Rejected:
  "axios_post env (interac_payload req lid) = Rejected \<Longrightarrow>
   submit env req s1 t lid = (Response 500 (FailedJson AxiosError), s1, [interac_payload req lid])"
  by (simp add: submit_def)

lemma insert_and_submit_cases:
  assumes "insert_and_submit env req s = (resp, s', calls)"
  obtains (rejected) e where "resp = Response 500 (FailedJson (DatabaseError e))" "s' = s" "calls = []"
  | (inserted) s1 row where
      "insert_transfer s (Some (new_localTransferId env)) (param (idempotencyKey req))
         (param (businessUserId req)) (param (recipientEmail req)) (param (recipientName req))
         (param (amountCents req)) (Some ''CAD'') (Some ''created'')
         (param (default_true (useAutoDeposit req))) (NOW_insert env) = Inr (s1, row)"
      "submit env req s1 row (new_localTransferId env) = (resp, s', calls)"
  using assms
  by (auto simp: insert_and_submit_def Let_def split: sum.splits)

lemma createTransfer_cases:
  assumes "createTransfer env req s = (resp, s', calls)"
  obtains (answered) "s' = s" "calls = []"
  | (fresh) "passes_validation req" "\<forall>r \<in> set (transfers s). \<not> matches_request req r"
      "insert_and_submit env req s = (resp, s', calls)"
proof (cases "passes_validation req")
  case False
  with assms have "s' = s \<and> calls = []"
    by (auto simp: createTransfer_def passes_validation_def split: if_splits)
  then show ?thesis using answered by blast
next
  case True
  show ?thesis
  proof (cases "select_by_key_and_user s (param (idempotencyKey req))
                  (param (businessUserId req))")
    case (Inl e)
    with True assms have "s' = s \<and> calls = []"
      by (simp add: createTransfer_def passes_validation_def)
    then show ?thesis using answered by blast
  next
    case (Inr rows)
    show ?thesis
    proof (cases rows)
      case Nil
      with Inr True assms have "insert_and_submit env req s = (resp, s', calls)"
        by (simp add: createTransfer_def passes_validation_def)
      moreover from Inr Nil have "\<forall>r \<in> set (transfers s). \<not> matches_request req r"
        by (simp add: select_by_key_and_user_Nil)
      ultimately show ?thesis using True fresh by blast
    next
      case (Cons x rest)
      with Inr True assms have "s' = s \<and> calls = []"
        by (simp add: createTransfer_def passes_validation_def)
      then show ?thesis using answered by blast
    qed
  qed
qed

subsection \<open>The concrete surroundings, evaluated\<close>

lemma replying_env_fields:
  "NOW_insert replying_env = 10" "NOW_update replying_env = 11"
  "axios_post replying_env = provider_accepts"
  "new_localTransferId replying_env = ''TRF_1730000000000_a1b2c3d4''"
  by (simp_all add: new_localTransferId_def replying_env_def hex32_def digit_char_def
      show_nat.simps)

lemma failing_env_fields:
  "NOW_insert failing_env = 10" "NOW_update failing_env = 11"
  "axios_post failing_env = provider_down"
  "new_localTransferId failing_env = ''TRF_1730000000000_a1b2c3d4''"
  by (simp_all add: new_localTransferId_def failing_env_def replying_env_def hex32_def
      digit_char_def show_nat.simps)

lemma later_env_fields:
  "NOW_insert later_env = 20" "NOW_update later_env = 21"
  "axios_post later_env = provider_accepts"
  "new_localTransferId later_env = ''TRF_1730000000500_0000beef''"
  by (simp_all add: new_localTransferId_def later_env_def replying_env_def hex32_def
      digit_char_def show_nat.simps)

lemmas run_defs =
  createTransfer_def insert_and_submit_def submit_def select_by_key_and_user_def
  insert_transfer_def update_submitted_def and_then_def text_in_def nul_free_def varchar_def
  char_count_def continuation_def int4_def not_null_def or_submitted_def Let_def
  empty_store_def one_transfer_store_def stored_transfer_def provider_down_def
  provider_accepts_def

lemma failing_run:
  "createTransfer failing_env example_request empty_store =
     (Response 500 (FailedJson AxiosError),
      \<lparr> transfers = [stored_transfer\<lparr>external_txn_id := None, status := ''created'',
                        updated_at := Some 10\<rparr>], transfer_events = [] \<rparr>,
      [interac_payload example_request ''TRF_1730000000000_a1b2c3d4''])"
  by (simp add: run_defs failing_env_fields example_request_def)

section \<open>Creating a transfer\<close>

subsection \<open>Provider failure\<close>

text \<open>
  Claim C4. Whenever the handler has called the provider (which it does only after the
  local insert succeeded) and that call fails, the answer is 500 with the provider's
  error, the provider was called exactly once (no retry), and the store has gained
  exactly one transfer row, which still has status \<^verbatim>\<open>created\<close> and no external
  transaction identifier: nothing is rolled back.
\<close>

theorem provider_failure_leaves_created_row:
  assumes run: "createTransfer env req s = (resp, s', calls)"
    and called: "calls \<noteq> []"
    and fails: "\<forall>p \<in> set calls. axios_post env p = Rejected"
  shows "resp = Response 500 (FailedJson AxiosError) \<and> length calls = 1
       \<and> (\<exists>row. transfers s' = transfers s @ [row] \<and> status row = ''created''
             \<and> external_txn_id row = None \<and> Some (amount_cents row) = param (amountCents req))
       \<and> transfer_events s' = transfer_events s"
proof -
  from run called have "insert_and_submit env req s = (resp, s', calls)"
    by (cases rule: createTransfer_cases) simp_all
  then obtain s1 row where
    ins: "insert_transfer s (Some (new_localTransferId env)) (param (idempotencyKey req))
            (param (businessUserId req)) (param (recipientEmail req)) (param (recipientName req))
            (param (amountCents req)) (Some ''CAD'') (Some ''created'')
            (param (default_true (useAutoDeposit req))) (NOW_insert env) = Inr (s1, row)"
    and sub: "submit env req s1 row (new_localTransferId env) = (resp, s', calls)"
    using called by (cases rule: insert_and_submit_cases) simp_all
  from submit_cases(1) [OF sub]
  have calls: "calls = [interac_payload req (new_localTransferId env)]" .
  with fails have "axios_post env (interac_payload req (new_localTransferId env)) = Rejected"
    by simp
  from submit_Rejected [OF this] sub
  have resp: "resp = Response 500 (FailedJson AxiosError)" and s': "s' = s1" by simp_all
  have "status row = ''created''"
    using insert_transfer_Inr(5) [OF ins] by simp
  moreover note insert_transfer_Inr(1,4,6) [OF ins]
  ultimately show ?thesis using resp s' calls by simp
qed

text \<open>The claim at a concrete request, with a provider that is down.\<close>

theorem provider_failure_leaves_created_row_witness:
  "snd (snd (createTransfer failing_env example_request empty_store)) \<noteq> []
   \<and> fst (createTransfer failing_env example_request empty_store)
       = Response 500 (FailedJson AxiosError)
   \<and> length (snd (snd (createTransfer failing_env example_request empty_store))) = 1
   \<and> (\<exists>row. transfers (fst (snd (createTransfer failing_env example_request empty_store)))
               = transfers empty_store @ [row]
            \<and> status row = ''created'' \<and> external_txn_id row = None
            \<and> Some (amount_cents row) = param (amountCents example_request))"
proof -
  let ?run = "createTransfer failing_env example_request empty_store"
  have run: "?run = (fst ?run, fst (snd ?run), snd (snd ?run))" by simp
  have called: "snd (snd ?run) \<noteq> []" by (simp add: failing_run)
  have fails: "\<forall>p \<in> set (snd (snd ?run)). axios_post failing_env p = Rejected"
    by (simp add: failing_env_fields provider_down_def)
  from provider_failure_leaves_created_row [OF run called fails] called
  show ?thesis by blast
qed

subsection \<open>The amount limit\<close>

text \<open>
  The guards on the amount: the ceiling itself passes, anything above it is answered 400,
  and zero is answered 400 as a missing field.
\<close>

lemma amount_limit_guards:
  "amountCents req = Val 2500000 \<Longrightarrow> truthy_str (businessUserId req) \<Longrightarrow>
     truthy_str (recipientEmail req) \<Longrightarrow> truthy_str (idempotencyKey req) \<Longrightarrow>
     passes_validation req"
  "amountCents req = Val n \<Longrightarrow> 2500000 < n \<Longrightarrow> truthy_str (businessUserId req) \<Longrightarrow>
     truthy_str (recipientEmail req) \<Longrightarrow>
     createTransfer env req s = (Response 400 (ErrorJson ''Exceeds $25K limit''), s, [])"
  "amountCents req = Val 0 \<Longrightarrow>
     createTransfer env req s = (Response 400 (ErrorJson ''Missing required fields''), s, [])"
  by (simp_all add: passes_validation_def createTransfer_def)

lemma negative_amount_insert_fails:
  assumes "p6 = Some n" and "n < 0"
  shows "\<exists>e. insert_transfer s p1 p2 p3 p4 p5 p6 p7 p8 p9 now = Inl e"
proof (cases "insert_transfer s p1 p2 p3 p4 p5 p6 p7 p8 p9 now")
  case (Inl e)
  then show ?thesis by blast
next
  case (Inr res)
  obtain s1 row where "res = (s1, row)" by (cases res)
  with Inr have "insert_transfer s p1 p2 p3 p4 p5 p6 p7 p8 p9 now = Inr (s1, row)" by simp
  from insert_transfer_Inr(6,7) [OF this] assms have False by simp
  then show ?thesis ..
qed

lemma negative_run:
  "createTransfer replying_env negative_request empty_store =
     (Response 500 (FailedJson (DatabaseError (CheckViolation ''transfers_amount_cents_check''))),
      empty_store, [])"
  by (simp add: run_defs replying_env_fields negative_request_def example_request_def)

text \<open>
  Claim C5. A negative amount is truthy and not above the ceiling, so a request that
  carries one (and the other required fields) passes every guard of lines 105 to 115: the
  answer is never the 400 of a validation error. When no stored transfer has its pair,
  the request reaches the insert, the database refuses the row, and the answer is 500.
\<close>

theorem negative_amount_reaches_insert:
  assumes negative: "amountCents req = Val n" "n < 0"
    and others: "truthy_str (businessUserId req)" "truthy_str (recipientEmail req)"
      "truthy_str (idempotencyKey req)"
  shows "passes_validation req
     \<and> statusCode (fst (createTransfer env req s)) \<noteq> 400
     \<and> ((\<forall>r \<in> set (transfers s). \<not> matches_request req r) \<longrightarrow>
          (\<exists>e. createTransfer env req s = (Response 500 (FailedJson (DatabaseError e)), s, [])))"
proof -
  from negative others have valid: "passes_validation req"
    by (simp add: passes_validation_def)
  from negative obtain e where ins: "insert_transfer s (Some (new_localTransferId env))
          (param (idempotencyKey req)) (param (businessUserId req))
          (param (recipientEmail req)) (param (recipientName req))
          (param (amountCents req)) (Some ''CAD'') (Some ''created'')
          (param (default_true (useAutoDeposit req))) (NOW_insert env) = Inl e"
    using negative_amount_insert_fails [of "param (amountCents req)" n] by fastforce
  then have ias:
    "insert_and_submit env req s = (Response 500 (FailedJson (DatabaseError e)), s, [])"
    by (simp add: insert_and_submit_def)
  have "statusCode (fst (createTransfer env req s)) \<noteq> 400"
    using valid ias
    by (simp add: createTransfer_def passes_validation_def split: sum.splits list.splits)
  moreover have "(\<forall>r \<in> set (transfers s). \<not> matches_request req r) \<longrightarrow>
      (\<exists>e. createTransfer env req s = (Response 500 (FailedJson (DatabaseError e)), s, []))"
  proof
    assume nomatch: "\<forall>r \<in> set (transfers s). \<not> matches_request req r"
    show "\<exists>e. createTransfer env req s = (Response 500 (FailedJson (DatabaseError e)), s, [])"
    proof (cases "select_by_key_and_user s (param (idempotencyKey req))
                    (param (businessUserId req))")
      case (Inl e')
      with valid show ?thesis
        by (simp add: createTransfer_def passes_validation_def)
    next
      case (Inr rows)
      show ?thesis
      proof (cases rows)
        case Nil
        with Inr valid ias show ?thesis
          by (simp add: createTransfer_def passes_validation_def)
      next
        case (Cons x rest)
        with Inr select_by_key_and_user_Cons [of s req x rest] nomatch have False by simp
        then show ?thesis ..
      qed
    qed
  qed
  ultimately show ?thesis using valid by blast
qed

text \<open>
  The claim at \<^verbatim>\<open>amountCents = -5\<close>: the \<^verbatim>\<open>CHECK\<close> constraint of the schema refuses
  the row.
\<close>

theorem negative_amount_reaches_insert_witness:
  "amountCents negative_request = Val (- 5)
   \<and> passes_validation negative_request
   \<and> createTransfer replying_env negative_request empty_store =
     (Response 500 (FailedJson (DatabaseError (CheckViolation ''transfers_amount_cents_check''))),
      empty_store, [])"
proof -
  have negative: "amountCents negative_request = Val (- 5)" "(- 5 :: int) < 0"
    by (simp_all add: negative_request_def)
  have others: "truthy_str (businessUserId negative_request)"
    "truthy_str (recipientEmail negative_request)" "truthy_str (idempotencyKey negative_request)"
    by (simp_all add: negative_request_def example_request_def)
  from negative_amount_reaches_insert [OF negative others, of replying_env empty_store]
    negative(1) negative_run
  show ?thesis by simp
qed

subsection \<open>Required fields\<close>

text \<open>
  Against claim C6 as stated: a request without \<^verbatim>\<open>recipientName\<close> is accepted and
  submitted; the handler does not test that field and the column is nullable.
\<close>

theorem missing_recipientName_is_accepted:
  "recipientName nameless_request = Undefined
   \<and> statusCode (fst (createTransfer replying_env nameless_request empty_store)) = 201"
  by (simp add: run_defs replying_env_fields nameless_request_def example_request_def)

text \<open>
  Claim C6, amended. A request in which \<^verbatim>\<open>businessUserId\<close>, \<^verbatim>\<open>amountCents\<close> or
  \<^verbatim>\<open>recipientEmail\<close> is missing (absent, null, empty or zero) is answered 400 with the
  reason \<^verbatim>\<open>Missing required fields\<close>; a request in which \<^verbatim>\<open>idempotencyKey\<close> is
  missing is answered 400, and when it passes the other guards the reason is
  \<^verbatim>\<open>Idempotency key required\<close>. In every case the store is unchanged and the provider is
  not called.
\<close>

theorem missing_field_is_rejected:
  "(\<not> truthy_str (businessUserId req) \<or> \<not> truthy_num (amountCents req)
      \<or> \<not> truthy_str (recipientEmail req) \<longrightarrow>
      createTransfer env req s = (Response 400 (ErrorJson ''Missing required fields''), s, []))
   \<and> (\<not> truthy_str (idempotencyKey req) \<longrightarrow>
      (\<exists>reason. createTransfer env req s = (Response 400 (ErrorJson reason), s, [])))
   \<and> (truthy_str (businessUserId req) \<and> truthy_num (amountCents req)
      \<and> truthy_str (recipientEmail req) \<and> \<not> greater_than (amountCents req) 2500000
      \<and> \<not> truthy_str (idempotencyKey req) \<longrightarrow>
      createTransfer env req s = (Response 400 (ErrorJson ''Idempotency key required''), s, []))"
  by (simp add: createTransfer_def)

text \<open>
  The claim at a request with \<^verbatim>\<open>amountCents = 0\<close> and at a request without an
  idempotency key.
\<close>

theorem missing_field_is_rejected_witness:
  "\<not> truthy_num (amountCents zero_amount_request)
   \<and> createTransfer replying_env zero_amount_request one_transfer_store
       = (Response 400 (ErrorJson ''Missing required fields''), one_transfer_store, [])
   \<and> \<not> truthy_str (idempotencyKey keyless_request)
   \<and> createTransfer replying_env keyless_request one_transfer_store
       = (Response 400 (ErrorJson ''Idempotency key required''), one_transfer_store, [])"
proof -
  have z: "\<not> truthy_num (amountCents zero_amount_request)"
    by (simp add: zero_amount_request_def)
  have k: "\<not> truthy_str (idempotencyKey keyless_request)"
    by (simp add: keyless_request_def)
  have v: "truthy_str (businessUserId keyless_request) \<and> truthy_num (amountCents keyless_request)
      \<and> truthy_str (recipientEmail keyless_request)
      \<and> \<not> greater_than (amountCents keyless_request) 2500000"
    by (simp add: keyless_request_def example_request_def)
  from missing_field_is_rejected [of zero_amount_request replying_env one_transfer_store]
    missing_field_is_rejected [of keyless_request replying_env one_transfer_store] z k v
  show ?thesis by blast
qed

subsection \<open>Idempotent replay\<close>

lemma createTransfer_replay:
  assumes known: "\<exists>r \<in> set (transfers s). matches_request req r"
    and valid: "passes_validation req"
    and stored: "holds_text s"
  shows "\<exists>r \<in> set (transfers s). matches_request req r
           \<and> createTransfer env req s = (Response 200 (TransferJson r), s, [])"
proof -
  from known obtain r where r: "r \<in> set (transfers s)" "matches_request req r" ..
  with stored have "nul_free (idempotency_key r)" "nul_free (business_user_id r)"
    by (auto simp: holds_text_def list_all_iff)
  with r(2) have "text_in (param (idempotencyKey req)) = Inr (param (idempotencyKey req))"
    and "text_in (param (businessUserId req)) = Inr (param (businessUserId req))"
    by (auto simp: matches_request_def text_in_Some dest: sym)
  then have sel: "select_by_key_and_user s (param (idempotencyKey req))
      (param (businessUserId req)) = Inr (filter (matches_request req) (transfers s))"
    by (rule select_by_key_and_user_ok)
  from r have "filter (matches_request req) (transfers s) \<noteq> []"
    by (auto simp: filter_empty_conv)
  then obtain x rest where rows: "filter (matches_request req) (transfers s) = x # rest"
    by (cases "filter (matches_request req) (transfers s)") auto
  with valid sel have "createTransfer env req s = (Response 200 (TransferJson x), s, [])"
    by (simp add: createTransfer_def passes_validation_def)
  with select_by_key_and_user_Cons [of s req x rest] sel rows show ?thesis by auto
qed

lemma createTransfer_known_pair_frame:
  assumes known: "\<exists>r \<in> set (transfers s). matches_request req r"
  shows "snd (createTransfer env req s) = (s, [])"
proof -
  obtain resp s' calls where run: "createTransfer env req s = (resp, s', calls)"
    by (cases "createTransfer env req s") auto
  from run known have "s' = s \<and> calls = []"
    by (cases rule: createTransfer_cases) auto
  with run show ?thesis by simp
qed

lemma createTransfer_key_pairs_distinct:
  assumes inv: "distinct (map key_pair (transfers s))"
  shows "distinct (map key_pair (transfers (fst (snd (createTransfer env req s)))))"
proof -
  obtain resp s' calls where run: "createTransfer env req s = (resp, s', calls)"
    by (cases "createTransfer env req s") auto
  have "distinct (map key_pair (transfers s'))"
    using run
  proof (cases rule: createTransfer_cases)
    case answered
    with inv show ?thesis by simp
  next
    case fresh
    from fresh(3) show ?thesis
    proof (cases rule: insert_and_submit_cases)
      case (rejected e)
      with inv show ?thesis by simp
    next
      case (inserted s1 row)
      from insert_transfer_Inr(1,3) [OF inserted(1)]
      have s1: "transfers s1 = transfers s @ [row]"
        and new: "idempotency_key row \<notin> set (map idempotency_key (transfers s))"
        by simp_all
      from new have "key_pair row \<notin> set (map key_pair (transfers s))"
        by (auto simp: key_pair_def)
      with inv s1 have "distinct (map key_pair (transfers s1))" by simp
      with submit_cases(2) [OF inserted(2)] show ?thesis by simp
    qed
  qed
  with run show ?thesis by simp
qed

text \<open>
  Every store the handler leaves behind holds keys without the character U+0000, as does
  the empty store: the parameters of a successful insert were bound.
\<close>

lemma holds_text_key_pairs:
  "holds_text s \<longleftrightarrow> list_all (\<lambda>p. nul_free (fst p) \<and> nul_free (snd p)) (map key_pair (transfers s))"
  by (simp add: holds_text_def key_pair_def list_all_iff)

lemma createTransfer_holds_text:
  assumes inv: "holds_text s"
  shows "holds_text (fst (snd (createTransfer env req s)))"
proof -
  obtain resp s' calls where run: "createTransfer env req s = (resp, s', calls)"
    by (cases "createTransfer env req s") auto
  have "holds_text s'"
    using run
  proof (cases rule: createTransfer_cases)
    case answered
    with inv show ?thesis by simp
  next
    case fresh
    from fresh(3) show ?thesis
    proof (cases rule: insert_and_submit_cases)
      case (rejected e)
      with inv show ?thesis by simp
    next
      case (inserted s1 row)
      from insert_transfer_Inr(1) [OF inserted(1)] insert_transfer_keys [OF inserted(1)] inv
      have "holds_text s1" by (simp add: holds_text_def)
      with submit_cases(2) [OF inserted(2)] show ?thesis
        by (simp add: holds_text_key_pairs)
    qed
  qed
  with run show ?thesis by simp
qed

lemma empty_store_holds_text: "holds_text empty_store"
  by (simp add: holds_text_def empty_store_def)

text \<open>
  Against claim C1 as stated: the guards of lines 105 to 115 run before the idempotency
  lookup, so a request that repeats a stored pair but asks for more than the ceiling is
  answered 400, not 200 with the stored record.
\<close>

theorem replay_over_the_limit_is_rejected:
  "matches_request over_limit_replay stored_transfer
   \<and> stored_transfer \<in> set (transfers one_transfer_store)
   \<and> createTransfer replying_env over_limit_replay one_transfer_store
       = (Response 400 (ErrorJson ''Exceeds $25K limit''), one_transfer_store, [])"
  by (simp add: createTransfer_def matches_request_def over_limit_replay_def
      example_request_def one_transfer_store_def stored_transfer_def)

text \<open>
  Claim C1, amended. A request that passes the guards of lines 105 to 115 and whose
  idempotency key and business user are those of a stored transfer is answered 200 with
  that stored row, unchanged; the store is one PostgreSQL can hold, whose keys contain no
  character U+0000. Any request with such a pair, valid or not, leaves the
  store as it was and calls the provider not at all. And no request ever creates a
  second row for a pair: distinctness of the pairs in the store is preserved.
\<close>

theorem replay_returns_existing_transfer:
  "((\<exists>r \<in> set (transfers s). matches_request req r) \<and> passes_validation req
      \<and> holds_text s \<longrightarrow>
      (\<exists>r \<in> set (transfers s). matches_request req r
         \<and> createTransfer env req s = (Response 200 (TransferJson r), s, [])))
   \<and> ((\<exists>r \<in> set (transfers s). matches_request req r) \<longrightarrow>
      snd (createTransfer env req s) = (s, []))
   \<and> (distinct (map key_pair (transfers s)) \<longrightarrow>
      distinct (map key_pair (transfers (fst (snd (createTransfer env req s))))))"
  using createTransfer_replay [of s req env] createTransfer_known_pair_frame [of s req env]
    createTransfer_key_pairs_distinct [of s env req]
  by blast

text \<open>The claim at the replay of a request whose transfer is stored.\<close>

theorem replay_returns_existing_transfer_witness:
  "createTransfer replying_env example_request one_transfer_store
     = (Response 200 (TransferJson stored_transfer), one_transfer_store, [])
   \<and> distinct (map key_pair (transfers (fst (snd
        (createTransfer replying_env example_request one_transfer_store)))))"
proof -
  have known: "\<exists>r \<in> set (transfers one_transfer_store). matches_request example_request r"
    by (simp add: one_transfer_store_def matches_request_def example_request_def
        stored_transfer_def)
  have valid: "passes_validation example_request"
    by (simp add: passes_validation_def example_request_def)
  have inv: "distinct (map key_pair (transfers one_transfer_store))"
    by (simp add: one_transfer_store_def)
  have stored: "holds_text one_transfer_store"
    by (simp add: holds_text_def one_transfer_store_def stored_transfer_def nul_free_def)
  have only: "set (transfers one_transfer_store) = {stored_transfer}"
    by (simp add: one_transfer_store_def)
  from replay_returns_existing_transfer [of one_transfer_store example_request replying_env]
    known valid stored inv only
  show ?thesis by auto
qed

subsection \<open>One idempotency key, two business users\<close>

lemma first_run:
  "createTransfer replying_env example_request empty_store =
     (Response 201 (CreatedJson
        \<lparr> created_id = ''TRF_1730000000000_a1b2c3d4'', externalTxnId = Val ''ext_1'',
          created_status = Val ''pending'', created_amount = ''50.00'',
          created_currency = ''CAD'' \<rparr>),
      one_transfer_store,
      [interac_payload example_request ''TRF_1730000000000_a1b2c3d4''])"
  by (simp add: run_defs replying_env_fields example_request_def digit_char_def show_nat.simps)

lemma passes_validation_D:
  assumes "passes_validation req"
  obtains u n e k where "businessUserId req = Val u" "u \<noteq> []" "amountCents req = Val n"
    "n \<noteq> 0" "n \<le> 2500000" "recipientEmail req = Val e" "e \<noteq> []"
    "idempotencyKey req = Val k" "k \<noteq> []"
  using assms
  by (cases "businessUserId req"; cases "amountCents req"; cases "recipientEmail req";
      cases "idempotencyKey req") (auto simp: passes_validation_def)

text \<open>
  Claim C9. Take a request that passes validation, whose idempotency key is stored, but
  only under other business users, and whose row the schema would otherwise admit. The
  lookup on both columns finds nothing for it, its insert violates the unique index on
  \<^verbatim>\<open>idempotency_key\<close> alone, and it is answered 500 with the store unchanged and no
  provider call: neither the existing transfer nor a second row.
\<close>

theorem shared_key_across_users_fails:
  assumes valid: "passes_validation req"
    and taken: "\<exists>r \<in> set (transfers s). Some (idempotency_key r) = param (idempotencyKey req)"
    and other_user: "\<forall>r \<in> set (transfers s).
        Some (idempotency_key r) = param (idempotencyKey req) \<longrightarrow>
        Some (business_user_id r) \<noteq> param (businessUserId req)"
    and cols: "fits_columns env req s"
  shows "select_by_key_and_user s (param (idempotencyKey req)) (param (businessUserId req))
          = Inr []
     \<and> insert_transfer s (Some (new_localTransferId env))
          (param (idempotencyKey req)) (param (businessUserId req))
          (param (recipientEmail req)) (param (recipientName req))
          (param (amountCents req)) (Some ''CAD'') (Some ''created'')
          (param (default_true (useAutoDeposit req))) (NOW_insert env)
        = Inl (UniqueViolation ''transfers_idempotency_key_key'')
     \<and> createTransfer env req s
        = (Response 500 (FailedJson (DatabaseError
             (UniqueViolation ''transfers_idempotency_key_key''))), s, [])"
proof -
  from valid obtain u n e k where f: "businessUserId req = Val u" "amountCents req = Val n"
    "n \<le> 2500000" "recipientEmail req = Val e" "idempotencyKey req = Val k"
    by (rule passes_validation_D)
  from cols have c: "acceptable 64 (new_localTransferId env)"
    "new_localTransferId env \<notin> set (map id' (transfers s))"
    "fits 128 (param (idempotencyKey req))" "fits 64 (param (businessUserId req))"
    "fits 255 (param (recipientEmail req))" "fits 255 (param (recipientName req))"
    by (simp_all add: fits_columns_def)
  from other_user have "filter (matches_request req) (transfers s) = []"
    by (auto simp: filter_empty_conv matches_request_def)
  with select_by_key_and_user_ok [OF fits_D(1) [OF c(3)] fits_D(1) [OF c(4)], of s]
  have sel:
    "select_by_key_and_user s (param (idempotencyKey req)) (param (businessUserId req)) = Inr []"
    by simp
  from taken f have key: "k \<in> set (map idempotency_key (transfers s))" by auto
  from cols f have positive: "0 < n" by (simp add: fits_columns_def)
  have ins: "insert_transfer s (Some (new_localTransferId env))
          (param (idempotencyKey req)) (param (businessUserId req))
          (param (recipientEmail req)) (param (recipientName req))
          (param (amountCents req)) (Some ''CAD'') (Some ''created'')
          (param (default_true (useAutoDeposit req))) (NOW_insert env)
        = Inl (UniqueViolation ''transfers_idempotency_key_key'')"
    using f key positive c(2) acceptable_D [OF c(1)] fits_D [OF c(3)] fits_D [OF c(4)]
      fits_D [OF c(5)] fits_D [OF c(6)]
    by (simp add: insert_transfer_def and_then_def constants_are_stored int4_def not_null_def)
  from valid sel ins have "createTransfer env req s
        = (Response 500 (FailedJson (DatabaseError
             (UniqueViolation ''transfers_idempotency_key_key''))), s, [])"
    by (simp add: createTransfer_def passes_validation_def insert_and_submit_def)
  with sel ins show ?thesis by simp
qed

text \<open>
  Such a pair of requests exists: after the first is accepted, the second, with the same
  key and another business user, fails in this way.
\<close>

theorem shared_key_across_users_fails_witness:
  "idempotencyKey example_request = idempotencyKey other_user_request
   \<and> businessUserId example_request \<noteq> businessUserId other_user_request
   \<and> createTransfer replying_env example_request empty_store =
     (Response 201 (CreatedJson
        \<lparr> created_id = ''TRF_1730000000000_a1b2c3d4'', externalTxnId = Val ''ext_1'',
          created_status = Val ''pending'', created_amount = ''50.00'',
          created_currency = ''CAD'' \<rparr>),
      one_transfer_store,
      [interac_payload example_request ''TRF_1730000000000_a1b2c3d4''])
   \<and> select_by_key_and_user one_transfer_store (param (idempotencyKey other_user_request))
       (param (businessUserId other_user_request)) = Inr []
   \<and> createTransfer later_env other_user_request one_transfer_store
        = (Response 500 (FailedJson (DatabaseError
             (UniqueViolation ''transfers_idempotency_key_key''))), one_transfer_store, [])"
proof -
  have keys: "idempotencyKey example_request = idempotencyKey other_user_request"
    and users: "businessUserId example_request \<noteq> businessUserId other_user_request"
    by (simp_all add: other_user_request_def example_request_def)
  have valid: "passes_validation other_user_request"
    by (simp add: passes_validation_def other_user_request_def example_request_def)
  have taken: "\<exists>r \<in> set (transfers one_transfer_store).
      Some (idempotency_key r) = param (idempotencyKey other_user_request)"
    by (simp add: one_transfer_store_def stored_transfer_def other_user_request_def
        example_request_def)
  have other_user: "\<forall>r \<in> set (transfers one_transfer_store).
      Some (idempotency_key r) = param (idempotencyKey other_user_request) \<longrightarrow>
      Some (business_user_id r) \<noteq> param (businessUserId other_user_request)"
    by (simp add: one_transfer_store_def stored_transfer_def other_user_request_def
        example_request_def)
  have cols: "fits_columns later_env other_user_request one_transfer_store"
    by (simp add: fits_columns_def fits_def acceptable_def nul_free_def char_count_def
        continuation_def later_env_fields one_transfer_store_def stored_transfer_def
        other_user_request_def example_request_def)
  from shared_key_across_users_fails [OF valid taken other_user cols] keys users first_run
  show ?thesis by simp
qed

section \<open>Webhooks\<close>

subsection \<open>Signature verification\<close>

lemma verifyWebhookSignature_iff:
  "verifyWebhookSignature sha256 payload signature secret \<longleftrightarrow>
     (\<exists>k p. secret = Val k \<and> payload = Val p \<and> signature = Val (sha256 k p))"
  by (cases secret; cases payload; cases signature)
    (auto simp: verifyWebhookSignature_def verify_try_def createHmac_digest_def Buffer_from_def
      timingSafeEqual_def and_then_def)

lemma length_mismatch_throws:
  "length sg \<noteq> length (sha256 k p) \<Longrightarrow>
   verify_try sha256 (Val p) (Val sg) (Val k) = Inl RangeError"
  by (simp add: verify_try_def createHmac_digest_def Buffer_from_def timingSafeEqual_def
      and_then_def)

text \<open>
  Claim C3. \<^verbatim>\<open>verifyWebhookSignature\<close> returns true exactly when the secret and the
  payload are strings and the signature is the hex digest of the payload under the
  secret; whenever the body of its \<^verbatim>\<open>try\<close> block throws (a missing secret or payload,
  buffers of different lengths) it returns false; and a webhook request whose signature
  header is missing or empty, or is not that digest of its raw body, is answered 400 and
  leaves the store as it was.
\<close>

theorem signature_is_checked:
  "(verifyWebhookSignature sha256 payload signature secret \<longleftrightarrow>
      (\<exists>k p. secret = Val k \<and> payload = Val p \<and> signature = Val (sha256 k p)))
   \<and> ((\<exists>e. verify_try sha256 payload signature secret = Inl e) \<longrightarrow>
      \<not> verifyWebhookSignature sha256 payload signature secret)
   \<and> (\<not> truthy_str (x_webhook_signature req)
      \<or> (\<forall>k p. WEBHOOK_SECRET env = Val k \<and> rawBody req = Val p \<longrightarrow>
            x_webhook_signature req \<noteq> Val (hmac_sha256 env k p)) \<longrightarrow>
      ingestWebhook env req s = (Response 400 (Text ''Invalid signature''), s))"
proof (intro conjI impI)
  show "verifyWebhookSignature sha256 payload signature secret \<longleftrightarrow>
      (\<exists>k p. secret = Val k \<and> payload = Val p \<and> signature = Val (sha256 k p))"
    by (rule verifyWebhookSignature_iff)
next
  assume "\<exists>e. verify_try sha256 payload signature secret = Inl e"
  then show "\<not> verifyWebhookSignature sha256 payload signature secret"
    by (auto simp: verifyWebhookSignature_def)
next
  assume "\<not> truthy_str (x_webhook_signature req)
      \<or> (\<forall>k p. WEBHOOK_SECRET env = Val k \<and> rawBody req = Val p \<longrightarrow>
            x_webhook_signature req \<noteq> Val (hmac_sha256 env k p))"
  then have "\<not> truthy_str (x_webhook_signature req)
      \<or> \<not> verifyWebhookSignature (hmac_sha256 env) (rawBody req) (x_webhook_signature req)
            (WEBHOOK_SECRET env)"
    by (auto simp: verifyWebhookSignature_iff)
  then show "ingestWebhook env req s = (Response 400 (Text ''Invalid signature''), s)"
    by (auto simp: ingestWebhook_def)
qed

lemma signed_request_verified: "signature_verified example_webhook_env (signed_request d)"
  by (simp add: signature_verified_def verifyWebhookSignature_iff example_webhook_env_def
      signed_request_def example_digest_def)

lemma signed_request_fields:
  "data (event (signed_request d)) = d" "type (event (signed_request d)) = Val ''payout.updated''"
  by (simp_all add: signed_request_def)

text \<open>
  The claim at concrete inputs: a signature that is accepted, and a request whose body
  was changed after signing, for which \<^verbatim>\<open>timingSafeEqual\<close> throws and the handler
  answers 400.
\<close>

theorem signature_is_checked_witness:
  "verifyWebhookSignature example_digest (Val ''raw body'')
     (Val (example_digest ''s3cret'' ''raw body'')) (Val ''s3cret'')
   \<and> verify_try example_digest (rawBody tampered_request) (x_webhook_signature tampered_request)
       (Val ''s3cret'') = Inl RangeError
   \<and> \<not> verifyWebhookSignature example_digest (rawBody tampered_request)
       (x_webhook_signature tampered_request) (Val ''s3cret'')
   \<and> ingestWebhook example_webhook_env tampered_request submitted_store
       = (Response 400 (Text ''Invalid signature''), submitted_store)"
proof -
  have thrown: "verify_try example_digest (rawBody tampered_request)
      (x_webhook_signature tampered_request) (Val ''s3cret'') = Inl RangeError"
    by (simp add: tampered_request_def signed_request_def length_mismatch_throws
        example_digest_def)
  have differs: "\<forall>k p. WEBHOOK_SECRET example_webhook_env = Val k
      \<and> rawBody tampered_request = Val p \<longrightarrow>
      x_webhook_signature tampered_request \<noteq> Val (hmac_sha256 example_webhook_env k p)"
    by (simp add: tampered_request_def signed_request_def example_webhook_env_def
        example_digest_def)
  from signature_is_checked [of example_digest "Val ''raw body''"
      "Val (example_digest ''s3cret'' ''raw body'')" "Val ''s3cret''"]
  have accepted: "verifyWebhookSignature example_digest (Val ''raw body'')
     (Val (example_digest ''s3cret'' ''raw body'')) (Val ''s3cret'')"
    by blast
  from signature_is_checked [of example_digest "rawBody tampered_request"
      "x_webhook_signature tampered_request" "Val ''s3cret''" tampered_request
      example_webhook_env submitted_store] thrown differs accepted
  show ?thesis by blast
qed

subsection \<open>Facts about the lookup and the two writes\<close>

lemma find_Some_filter:
  "find P xs = Some t \<Longrightarrow> \<exists>rest. filter P xs = t # rest"
  by (induction xs) (auto split: if_splits)

lemma find_Some_mem:
  "find P xs = Some t \<Longrightarrow> t \<in> set xs \<and> P t"
  by (induction xs) (auto split: if_splits)

lemma matches_transfer_D:
  assumes "matches_transfer s d t"
  shows "optional_localTransferId (data_metadata d) = Val (id' t)"
    and "id' t \<noteq> []"
    and "t \<in> set (transfers s)"
    and "\<exists>rest. filter (\<lambda>r. Some (id' r) = Some (id' t)) (transfers s) = t # rest"
proof -
  from assms obtain x where x: "optional_localTransferId (data_metadata d) = Val x" "x \<noteq> []"
    "find (\<lambda>r. id' r = x) (transfers s) = Some t"
    by (auto simp: matches_transfer_def split: field.splits)
  from find_Some_mem [OF x(3)] have t: "t \<in> set (transfers s)" "id' t = x" by simp_all
  with x show "optional_localTransferId (data_metadata d) = Val (id' t)" "id' t \<noteq> []"
    "t \<in> set (transfers s)" by simp_all
  from find_Some_filter [OF x(3)] t(2)
  show "\<exists>rest. filter (\<lambda>r. Some (id' r) = Some (id' t)) (transfers s) = t # rest" by simp
qed

lemma find_transfer_matched:
  assumes "matches_transfer s d t" and "nul_free (id' t)"
  shows "\<exists>rest. find_transfer s d = Inr (t # rest)"
  using matches_transfer_D [OF assms(1)] assms(2)
  by (simp add: find_transfer_def select_by_id_def and_then_def text_in_Some)

lemma find_transfer_matched_cases:
  assumes "matches_transfer s d t"
  shows "(\<exists>e. find_transfer s d = Inl e) \<or> (\<exists>rest. find_transfer s d = Inr (t # rest))"
proof (cases "nul_free (id' t)")
  case True
  with assms show ?thesis by (simp add: find_transfer_matched)
next
  case False
  with matches_transfer_D(1,2) [OF assms] show ?thesis
    by (simp add: find_transfer_def select_by_id_def and_then_def text_in_def)
qed




lemma names_stored_transfer_found:
  "matches_transfer submitted_store (event_data_with st names_stored_transfer) submitted_transfer"
  by (simp add: matches_transfer_def event_data_with_def names_stored_transfer_def
      submitted_store_def submitted_transfer_def stored_transfer_def)



text \<open>
  Characters are counted, not bytes: twenty characters of three bytes each fit a column
  of 32 characters.
\<close>

lemma wide_status_is_stored:
  "length wide_status = 60 \<and> varchar 32 col (Some wide_status) = Inr (Some wide_status)"
proof -
  have "char_count (concat (replicate k [CHR 0xE4, CHR 0xB8, CHR 0xAD])) = k"
    and "length (concat (replicate k [CHR 0xE4, CHR 0xB8, CHR 0xAD])) = 3 * k" for k
    by (induction k) (simp_all add: char_count_def continuation_def)
  then show ?thesis by (simp add: wide_status_def varchar_def)
qed

text \<open>
  An identifier that contains the character U+0000 cannot be bound to the
  \<^verbatim>\<open>SELECT\<close> of line 203: the query throws and the handler answers 500.
\<close>

lemma nul_in_identifier_is_an_error:
  "ingestWebhook example_webhook_env (signed_request (Val nul_id_data)) submitted_store
     = (Response 500 (Text ''Error''), submitted_store)"
  using signed_request_verified [of "Val nul_id_data"]
  by (simp add: ingestWebhook_def signature_verified_def destructure_def signed_request_fields
      find_transfer_def select_by_id_def and_then_def text_in_def nul_free_def nul_id_data_def
      event_data_with_def)

subsection \<open>Events that name no stored transfer\<close>

text \<open>
  Against claim C7 as stated: an event that carries no \<^verbatim>\<open>data\<close> object has no
  metadata and therefore no \<^verbatim>\<open>localTransferId\<close>, yet it is answered 500, because line
  199 destructures \<^verbatim>\<open>data\<close> before the lookup.
\<close>

theorem event_without_data_is_an_error:
  "signature_verified example_webhook_env (signed_request Undefined)
   \<and> data (event (signed_request Undefined)) = Undefined
   \<and> ingestWebhook example_webhook_env (signed_request Undefined) submitted_store
       = (Response 500 (Text ''Error''), submitted_store)"
  using signed_request_verified [of Undefined]
  by (simp add: ingestWebhook_def signature_verified_def destructure_def signed_request_fields)

text \<open>
  Claim C7, amended. A signature-verified event that carries a \<^verbatim>\<open>data\<close> object, and
  whose metadata is absent or has no truthy \<^verbatim>\<open>localTransferId\<close>, or whose
  \<^verbatim>\<open>localTransferId\<close> is text the database accepts as a parameter (it contains no
  character U+0000) and is the identifier of no stored transfer, is answered 200 and
  leaves the store exactly as it was.
\<close>

theorem unmatched_event_is_acknowledged:
  assumes "signature_verified env req"
    and "data (event req) = Val d"
    and "\<not> truthy_str (optional_localTransferId (data_metadata d))
         \<or> (field_nul_free (optional_localTransferId (data_metadata d))
            \<and> (\<forall>t \<in> set (transfers s).
                 Some (id' t) \<noteq> param (optional_localTransferId (data_metadata d))))"
  shows "ingestWebhook env req s = (Response 200 (Text ''OK''), s)"
proof -
  have "find_transfer s d = Inr []"
  proof (cases "truthy_str (optional_localTransferId (data_metadata d))")
    case False
    then show ?thesis by (simp add: find_transfer_def)
  next
    case True
    then obtain x where x: "optional_localTransferId (data_metadata d) = Val x"
      by (cases "optional_localTransferId (data_metadata d)") auto
    with True assms(3) have "nul_free x" "\<forall>t \<in> set (transfers s). id' t \<noteq> x" by auto
    with True x show ?thesis
      by (simp add: find_transfer_def select_by_id_def and_then_def text_in_Some
          filter_empty_conv)
  qed
  with assms(1,2) show ?thesis
    by (simp add: ingestWebhook_def signature_verified_def destructure_def)
qed

text \<open>
  The claim at an event without metadata and at an event that names a transfer the store
  does not hold.
\<close>

theorem unmatched_event_is_acknowledged_witness:
  "ingestWebhook example_webhook_env (signed_request (Val unmatched_data)) submitted_store
     = (Response 200 (Text ''OK''), submitted_store)
   \<and> ingestWebhook example_webhook_env (signed_request (Val unknown_id_data)) submitted_store
     = (Response 200 (Text ''OK''), submitted_store)"
proof -
  have absent: "\<not> truthy_str (optional_localTransferId (data_metadata unmatched_data))
      \<or> (field_nul_free (optional_localTransferId (data_metadata unmatched_data))
         \<and> (\<forall>t \<in> set (transfers submitted_store).
              Some (id' t) \<noteq> param (optional_localTransferId (data_metadata unmatched_data))))"
    by (simp add: unmatched_data_def event_data_with_def)
  have unknown: "\<not> truthy_str (optional_localTransferId (data_metadata unknown_id_data))
      \<or> (field_nul_free (optional_localTransferId (data_metadata unknown_id_data))
         \<and> (\<forall>t \<in> set (transfers submitted_store).
              Some (id' t) \<noteq> param (optional_localTransferId (data_metadata unknown_id_data))))"
    by (simp add: unknown_id_data_def event_data_with_def submitted_store_def
        submitted_transfer_def stored_transfer_def nul_free_def)
  from unmatched_event_is_acknowledged [OF signed_request_verified signed_request_fields(1) absent]
    unmatched_event_is_acknowledged [OF signed_request_verified signed_request_fields(1) unknown]
  show ?thesis by simp
qed

subsection \<open>Events without a status\<close>

text \<open>
  Claim C10. For a signature-verified event that names a stored transfer and whose
  \<^verbatim>\<open>data.status\<close> is absent or null, computing the mapped status throws a TypeError
  and the handler answers 500 with the store exactly as it was: no status update, no
  event row.
\<close>

theorem missing_status_is_an_error:
  assumes "signature_verified env req"
    and "data (event req) = Val d"
    and "matches_transfer s d t"
    and "data_status d = Undefined \<or> data_status d = Null"
  shows "mappedStatus (status t) (data_status d) = Inl TypeError
       \<and> ingestWebhook env req s = (Response 500 (Text ''Error''), s)"
proof -
  from assms(4) have thrown: "mappedStatus (status t) (data_status d) = Inl TypeError"
    by (auto simp: mappedStatus_def)
  from find_transfer_matched_cases [OF assms(3)]
  have "ingestWebhook env req s = (Response 500 (Text ''Error''), s)"
  proof
    assume "\<exists>e. find_transfer s d = Inl e"
    with assms(1,2) show ?thesis
      by (auto simp: ingestWebhook_def signature_verified_def destructure_def)
  next
    assume "\<exists>rest. find_transfer s d = Inr (t # rest)"
    with assms(1,2) thrown show ?thesis
      by (auto simp: ingestWebhook_def signature_verified_def destructure_def record_event_def)
  qed
  with thrown show ?thesis by simp
qed

text \<open>The claim at an event for the stored transfer that carries no status.\<close>

theorem missing_status_is_an_error_witness:
  "mappedStatus (status submitted_transfer) (data_status statusless_data) = Inl TypeError
   \<and> ingestWebhook example_webhook_env (signed_request (Val statusless_data)) submitted_store
       = (Response 500 (Text ''Error''), submitted_store)"
proof -
  have found: "matches_transfer submitted_store statusless_data submitted_transfer"
    unfolding statusless_data_def by (rule names_stored_transfer_found)
  have absent: "data_status statusless_data = Undefined \<or> data_status statusless_data = Null"
    by (simp add: statusless_data_def event_data_with_def)
  from missing_status_is_an_error [OF signed_request_verified signed_request_fields(1) found absent]
  show ?thesis .
qed

subsection \<open>Events that name a stored transfer\<close>




subsection \<open>The state machine\<close>

text \<open>
  What holds of the transition function: the current status plays no part, the four
  known statuses are recognised in any casing, every other status except the two
  inherited keys is passed through as it is, and a terminal status can be overwritten.
\<close>

lemma applyProviderStatus_ignores_current:
  "applyProviderStatus c1 raw = applyProviderStatus c2 raw"
  by (simp add: applyProviderStatus_def)

lemma applyProviderStatus_mapped:
  assumes "toLowerCase raw \<in> {''pending'', ''sent'', ''deposited'', ''failed''}"
  shows "applyProviderStatus cur raw = JsString (toLowerCase raw)"
  using assms by (auto simp: applyProviderStatus_def statusMap_def)

lemma applyProviderStatus_passed_through:
  assumes "toLowerCase raw \<notin> {''pending'', ''sent'', ''deposited'', ''failed'',
                               ''constructor'', ''__proto__''}"
  shows "applyProviderStatus cur raw = JsString raw"
  using assms by (simp add: applyProviderStatus_def statusMap_def)

lemma applyProviderStatus_regresses:
  "applyProviderStatus ''deposited'' ''pending'' = JsString ''pending''"
  by (simp add: applyProviderStatus_def statusMap_def toLowerCase_def lower_char_def)

text \<open>
  Claim C2. A raw status that lower-cases to \<^verbatim>\<open>constructor\<close> is none of the four keys
  of the map, so the claim has it passed through verbatim. The lookup finds the inherited
  property instead: whatever the current status, the transition yields the function
  \<^verbatim>\<open>Object\<close>, not the raw string, and what is sent to the database is not the raw
  status.
\<close>

theorem inherited_key_is_not_passed_through:
  assumes "toLowerCase raw = ''constructor''"
  shows "applyProviderStatus currentStatus raw = Object_constructor
     \<and> applyProviderStatus currentStatus raw \<noteq> JsString raw
     \<and> param_text (applyProviderStatus currentStatus raw) \<noteq> Some raw"
proof -
  from assms have "applyProviderStatus currentStatus raw = Object_constructor"
    by (simp add: applyProviderStatus_def statusMap_def)
  moreover from assms have "length raw = 11"
    by (auto simp: toLowerCase_def dest: arg_cong [where f = length])
  ultimately show ?thesis by auto
qed

theorem inherited_key_is_not_passed_through_witness:
  "toLowerCase ''Constructor'' = ''constructor''
   \<and> applyProviderStatus ''submitted'' ''Constructor'' = Object_constructor
   \<and> applyProviderStatus ''submitted'' ''Constructor'' \<noteq> JsString ''Constructor''"
proof -
  have "toLowerCase ''Constructor'' = ''constructor''"
    by (simp add: toLowerCase_def lower_char_def)
  with inherited_key_is_not_passed_through [OF this, of "''submitted''"]
  show ?thesis by simp
qed

subsection \<open>Webhooks and the idempotency pairs\<close>

text \<open>No webhook changes the idempotency key or the business user of a stored transfer.\<close>

lemma update_status_Inr:
  assumes "update_status s p1 p2 now = Inr s1"
  shows "map key_pair (transfers s1) = map key_pair (transfers s)"
  using assms
  by (auto simp: update_status_def and_then_Inr_iff not_null_Inr_iff key_pair_def
      split: if_splits)

lemma insert_event_Inr:
  assumes "insert_event s p1 p2 p3 now = Inr s2"
  shows "transfers s2 = transfers s"
  using assms
  by (auto simp: insert_event_def and_then_Inr_iff not_null_Inr_iff split: if_splits)

lemma record_event_key_pairs:
  "map key_pair (transfers (snd (record_event env req s d t))) = map key_pair (transfers s)"
proof (cases "record_event env req s d t")
  case (Pair resp s')
  then have "map key_pair (transfers s') = map key_pair (transfers s)"
    by (auto simp: record_event_def insert_event_Inr update_status_Inr split: sum.splits)
  with Pair show ?thesis by simp
qed

lemma ingestWebhook_key_pairs:
  "map key_pair (transfers (snd (ingestWebhook env req s))) = map key_pair (transfers s)"
  by (simp add: ingestWebhook_def record_event_key_pairs split: sum.splits list.splits)

lemma ingestWebhook_holds_text:
  "holds_text (snd (ingestWebhook env req s)) \<longleftrightarrow> holds_text s"
  by (simp add: holds_text_key_pairs ingestWebhook_key_pairs)

end
